theory Spec2Isabelle
  imports Main "HOL-Library.Word" "HOL-Library.Sublist"
begin

unbundle bit_operations_syntax

section \<open>Types and primitives\<close>

text \<open>
  The Go package declares \<^verbatim>\<open>type Protocol string\<close> with the two constants below; the
  zero value is the empty string, which \<^verbatim>\<open>parsePacket\<close> tests for.
\<close>

type_synonym Protocol = string

definition ProtoTCP :: Protocol where
  "ProtoTCP = ''tcp''"

definition ProtoUDP :: Protocol where
  "ProtoUDP = ''udp''"

text \<open>
  \<^verbatim>\<open>type Direction uint8\<close>: upload is 0 and download is 1 (\<^verbatim>\<open>iota\<close>). A value of the
  type can hold any byte, so the model keeps the byte.
\<close>

type_synonym Direction = "8 word"

definition DirectionUpload :: Direction where
  "DirectionUpload = 0"

definition DirectionDownload :: Direction where
  "DirectionDownload = 1"

text \<open>
  Both socket structs of the source have fields named \<^verbatim>\<open>IP\<close> and \<^verbatim>\<open>Port\<close>; the record
  fields carry the struct's side in their name to keep them apart.
\<close>

record RemoteSocket =
  RemoteIP :: string
  RemotePort :: "16 word"

record LocalSocket =
  LocalIP :: string
  LocalPort :: "16 word"
  LocalProtocol :: Protocol

record Connection =
  Local :: LocalSocket
  Remote :: RemoteSocket

record ProcessInfo =
  Pid :: int
  Name :: string

text \<open>
  Go's \<^verbatim>\<open>int\<close> is 64 bits wide on the 64-bit Linux targets of the build; the counters are
  64-bit words and \<open>+\<close> wraps as the machine addition does. A \<^verbatim>\<open>*ProcessInfo\<close> that may be
  \<^verbatim>\<open>nil\<close> is an \<open>option\<close>.
\<close>

type_synonym go_int = "64 word"

record ConnectionInfo =
  Interface :: string
  UploadPackets :: go_int
  DownloadPackets :: go_int
  UploadBytes :: go_int
  DownloadBytes :: go_int
  Process :: "ProcessInfo option"

record Segment =
  SegInterface :: string
  DataLen :: go_int
  Connection :: Connection
  Direction :: Direction
  SegProcess :: "ProcessInfo option"

type_synonym OpenSockets = "LocalSocket \<rightharpoonup> ProcessInfo"
type_synonym Utilization = "Connection \<rightharpoonup> ConnectionInfo"

section \<open>The sink\<close>

record Sinker =
  utilization :: Utilization

definition NewSinker :: Sinker where
  "NewSinker = \<lparr>utilization = Map.empty\<rparr>"

text \<open>
  \<^verbatim>\<open>Fetch\<close> inserts a fresh \<^verbatim>\<open>ConnectionInfo\<close> when the key is missing, then adds to the
  counters of the entry through the stored pointer. A direction byte other than the two
  constants matches no case of the switch and leaves the counters alone.
\<close>

definition Fetch :: "Sinker \<Rightarrow> Segment \<Rightarrow> Sinker" where
  "Fetch c seg =
    (let k = Connection seg;
         ci = (case utilization c k of
                 Some e \<Rightarrow> e
               | None \<Rightarrow> \<lparr>Interface = SegInterface seg, UploadPackets = 0,
                           DownloadPackets = 0, UploadBytes = 0, DownloadBytes = 0,
                           Process = SegProcess seg\<rparr>);
         ci' = (if Direction seg = DirectionUpload then
                  ci\<lparr>UploadBytes := UploadBytes ci + DataLen seg,
                     UploadPackets := UploadPackets ci + 1\<rparr>
                else if Direction seg = DirectionDownload then
                  ci\<lparr>DownloadBytes := DownloadBytes ci + DataLen seg,
                     DownloadPackets := DownloadPackets ci + 1\<rparr>
                else ci)
     in c\<lparr>utilization := (utilization c)(k \<mapsto> ci')\<rparr>)"

definition GetUtilization :: "Sinker \<Rightarrow> Utilization \<times> Sinker" where
  "GetUtilization c = (utilization c, c\<lparr>utilization := Map.empty\<rparr>)"

text \<open>A run of the producer between two drains: the segments are fetched in order.\<close>

definition FetchAll :: "Sinker \<Rightarrow> Segment list \<Rightarrow> Sinker" where
  "FetchAll c segs = foldl Fetch c segs"

subsection \<open>What the specification expects of a window\<close>

text \<open>
  The segments of a window that belong to connection \<open>k\<close> and travel in direction \<open>d\<close>,
  the sum of their lengths and their number, both in Go's \<^verbatim>\<open>int\<close>.
\<close>

definition segsOf :: "Connection \<Rightarrow> Direction \<Rightarrow> Segment list \<Rightarrow> Segment list" where
  "segsOf k d segs = filter (\<lambda>s. Connection s = k \<and> Direction s = d) segs"

definition sumBytes :: "Connection \<Rightarrow> Direction \<Rightarrow> Segment list \<Rightarrow> go_int" where
  "sumBytes k d segs = sum_list (map DataLen (segsOf k d segs))"

definition countPackets :: "Connection \<Rightarrow> Direction \<Rightarrow> Segment list \<Rightarrow> go_int" where
  "countPackets k d segs = of_nat (length (segsOf k d segs))"

text \<open>
  The entry the specification expects for \<open>k\<close> after a window that started empty: none
  when no segment names \<open>k\<close>; otherwise the interface and process of the first such
  segment and the four tallies.
\<close>

definition windowEntry :: "Connection \<Rightarrow> Segment list \<Rightarrow> ConnectionInfo option" where
  "windowEntry k segs =
    (case filter (\<lambda>s. Connection s = k) segs of
       [] \<Rightarrow> None
     | s # _ \<Rightarrow> Some \<lparr>Interface = SegInterface s,
                      UploadPackets = countPackets k DirectionUpload segs,
                      DownloadPackets = countPackets k DirectionDownload segs,
                      UploadBytes = sumBytes k DirectionUpload segs,
                      DownloadBytes = sumBytes k DirectionDownload segs,
                      Process = SegProcess s\<rparr>)"

text \<open>The same tallies added to an entry that was already there.\<close>

definition addTallies :: "Connection \<Rightarrow> Segment list \<Rightarrow> ConnectionInfo \<Rightarrow> ConnectionInfo" where
  "addTallies k segs ci =
    ci\<lparr>UploadPackets := UploadPackets ci + countPackets k DirectionUpload segs,
       DownloadPackets := DownloadPackets ci + countPackets k DirectionDownload segs,
       UploadBytes := UploadBytes ci + sumBytes k DirectionUpload segs,
       DownloadBytes := DownloadBytes ci + sumBytes k DirectionDownload segs\<rparr>"

subsection \<open>The literal scenario of the specification\<close>

text \<open>
  The connection and the upload segment of the specification's end-to-end scenarios: a
  50-byte upload of process 42 (\<^verbatim>\<open>curl\<close>) from 10.0.0.2:50000 to 1.1.1.1:443 over TCP.
\<close>

definition scenarioConn :: Connection where
  "scenarioConn =
    \<lparr>Local = \<lparr>LocalIP = ''10.0.0.2'', LocalPort = 50000, LocalProtocol = ProtoTCP\<rparr>,
     Remote = \<lparr>RemoteIP = ''1.1.1.1'', RemotePort = 443\<rparr>\<rparr>"

definition scenarioSeg :: Segment where
  "scenarioSeg =
    \<lparr>SegInterface = ''eth0'', DataLen = 50, Connection = scenarioConn,
     Direction = DirectionUpload, SegProcess = Some \<lparr>Pid = 42, Name = ''curl''\<rparr>\<rparr>"

text \<open>
  A later segment of the same connection that names another interface, no process and
  the download direction.
\<close>

definition scenarioLaterSeg :: Segment where
  "scenarioLaterSeg =
    \<lparr>SegInterface = ''eth1'', DataLen = 70, Connection = scenarioConn,
     Direction = DirectionDownload, SegProcess = None\<rparr>"

section \<open>Errors, panics and the world outside the package\<close>

text \<open>
  A Go \<^verbatim>\<open>error\<close> is a value the caller receives next to the other results: an error
  number of the operating system, a message, or an error wrapped with a message. A panic
  ends the program: a function that can panic returns \<open>panic + 'a\<close>, with \<open>Inl\<close> for the
  panic.
\<close>

datatype error = Errno nat | ErrorString string | Wrapf error string

datatype panic = NilMapAssignment | IndexOutOfRange

text \<open>The receive timeout of the diagnosis socket surfaces as \<^verbatim>\<open>EAGAIN\<close>.\<close>

definition EAGAIN :: error where
  "EAGAIN = Errno 11"

text \<open>
  What the package takes from the Go standard library and from files of the package that
  are not among the sources: the text form of a \<^verbatim>\<open>net.IP\<close>, the byte order
  \<^verbatim>\<open>getNativeEndian\<close> detects, and the constant \<^verbatim>\<open>unknownProcessName\<close>.
\<close>

record host =
  IP_String :: "8 word list \<Rightarrow> string"
  nativeBigEndian :: bool
  unknownProcessName :: string

section \<open>The socket-diagnosis connection\<close>

subsection \<open>Byte order and addresses\<close>

type_synonym be16 = "8 word \<times> 8 word"
type_synonym be32 = "8 word \<times> 8 word \<times> 8 word \<times> 8 word"

text \<open>
  \<^verbatim>\<open>Swap\<close> exchanges the two bytes of a 16-bit value unless the machine is big-endian.
\<close>

definition Swap :: "host \<Rightarrow> 16 word \<Rightarrow> 16 word" where
  "Swap h i = (if nativeBigEndian h then i
               else drop_bit 8 (i AND 0xff00) OR push_bit 8 (i AND 0xff))"

text \<open>
  \<^verbatim>\<open>Int\<close> reads the two bytes as the machine's own \<^verbatim>\<open>uint16\<close> (first byte low on a
  little-endian machine, high on a big-endian one) and swaps.
\<close>

definition nativeUint16 :: "host \<Rightarrow> be16 \<Rightarrow> 16 word" where
  "nativeUint16 h v =
    (if nativeBigEndian h then push_bit 8 (ucast (fst v)) OR ucast (snd v)
     else push_bit 8 (ucast (snd v)) OR ucast (fst v))"

definition be16_Int :: "host \<Rightarrow> be16 \<Rightarrow> int" where
  "be16_Int h v = uint (Swap h (nativeUint16 h v))"

definition be32_bytes :: "be32 \<Rightarrow> 8 word list" where
  "be32_bytes b = (case b of (b0, b1, b2, b3) \<Rightarrow> [b0, b1, b2, b3])"

text \<open>\<^verbatim>\<open>net.IPv4\<close> builds the 16-byte form of an IPv4 address.\<close>

definition net_IPv4 :: "8 word \<Rightarrow> 8 word \<Rightarrow> 8 word \<Rightarrow> 8 word \<Rightarrow> 8 word list" where
  "net_IPv4 a b c d = [0, 0, 0, 0, 0, 0, 0, 0, 0, 0, 0xff, 0xff, a, b, c, d]"

definition ipv4 :: "host \<Rightarrow> be32 \<Rightarrow> string" where
  "ipv4 h b = (case b of (b0, b1, b2, b3) \<Rightarrow> IP_String h (net_IPv4 b0 b1 b2 b3))"

definition ipv6 :: "host \<Rightarrow> be32 \<times> be32 \<times> be32 \<times> be32 \<Rightarrow> string" where
  "ipv6 h b = (case b of (w0, w1, w2, w3) \<Rightarrow>
     IP_String h (be32_bytes w0 @ be32_bytes w1 @ be32_bytes w2 @ be32_bytes w3))"

definition AF_INET :: "8 word" where
  "AF_INET = 2"

definition AF_INET6 :: "8 word" where
  "AF_INET6 = 10"

definition ipHex2String :: "host \<Rightarrow> 8 word \<Rightarrow> be32 \<times> be32 \<times> be32 \<times> be32 \<Rightarrow> string \<times> error option" where
  "ipHex2String h family ip =
    (if family = AF_INET then (ipv4 h (fst ip), None)
     else if family = AF_INET6 then (ipv6 h ip, None)
     else ('''', Some (ErrorString ''family is not unix.AF_INET or unix.AF_INET6'')))"

subsection \<open>Caches\<close>

text \<open>
  A \<^verbatim>\<open>time.Time\<close> is a count of nanoseconds and a \<^verbatim>\<open>time.Duration\<close> a difference of
  two (Go saturates a difference beyond about 292 years; the model does not). A Go map
  that may be \<^verbatim>\<open>nil\<close> is an \<open>option\<close>: reading a nil map finds nothing, deleting from
  it does nothing, and assigning to it panics.
\<close>

record processCache =
  info :: ProcessInfo
  timestamp :: int

record netlinkConn =
  inodeCache :: "(32 word \<rightharpoonup> processCache) option"
  portCache :: "(16 word \<rightharpoonup> processCache) option"

definition Second :: int where
  "Second = 1000000000"

definition GetSocketFetcher :: netlinkConn where
  "GetSocketFetcher = \<lparr>inodeCache = Some Map.empty, portCache = Some Map.empty\<rparr>"

text \<open>Reading \<^verbatim>\<open>nl.portCache[port]\<close> and \<^verbatim>\<open>nl.inodeCache[inode]\<close>.\<close>

definition portCacheAt :: "netlinkConn \<Rightarrow> 16 word \<Rightarrow> processCache option" where
  "portCacheAt nl port = (case portCache nl of None \<Rightarrow> None | Some pc \<Rightarrow> pc port)"

definition inodeCacheAt :: "netlinkConn \<Rightarrow> 32 word \<Rightarrow> processCache option" where
  "inodeCacheAt nl inode = (case inodeCache nl of None \<Rightarrow> None | Some ic \<Rightarrow> ic inode)"

subsection \<open>The operating system as the package sees it\<close>

text \<open>
  The fields of a diagnosis record that \<^verbatim>\<open>sockdiagRecv\<close> reads. A netlink message has a
  header type and its data; \<open>None\<close> stands for empty data, where taking the address of the
  first byte panics.
\<close>

record inetDiagMsg =
  IDiagFamily :: "8 word"
  IdiagSport :: be16
  IdiagSrc :: "be32 \<times> be32 \<times> be32 \<times> be32"
  IDiagInode :: "32 word"

record NetlinkMessage =
  HeaderType :: "16 word"
  Data :: "inetDiagMsg option"

definition NLMSG_DONE :: "16 word" where
  "NLMSG_DONE = 3"

text \<open>
  One \<^verbatim>\<open>Recvmsg\<close> on the diagnosis socket: an error, no bytes, bytes that
  \<^verbatim>\<open>ParseNetlinkMessage\<close> rejects, or a batch of messages. Each message comes with the
  reading \<^verbatim>\<open>time.Now()\<close> gives while the message is handled.
\<close>

datatype recvResult =
    RecvErr error
  | RecvZero
  | RecvParseErr error
  | RecvMsgs "(NetlinkMessage \<times> int) list"

text \<open>The result \<^verbatim>\<open>getProcInodes\<close> sends to the collector for one process.\<close>

record scanResult =
  procInfo :: ProcessInfo
  inodes :: "32 word list"

text \<open>
  One refresh sees: the outcome of \<^verbatim>\<open>listPids\<close>; for each pid the name, socket inodes
  and error \<^verbatim>\<open>getProcInodes\<close> reads from the process filesystem; the order in which
  the workers' results reach the collector; the clock at the start of
  \<^verbatim>\<open>getAllProcsInodes\<close>; whether \<^verbatim>\<open>/proc/net/if_inet6\<close> exists; the outcome of each
  \<^verbatim>\<open>sockdiagSend\<close> (a descriptor or an error); and what each descriptor delivers.
\<close>

record os =
  procPids :: "error + int list"
  procInodes :: "int \<Rightarrow> string \<times> 32 word list \<times> error option"
  arrival :: "scanResult list \<Rightarrow> scanResult list"
  timeNow :: int
  hasIPv6 :: bool
  sendResult :: "8 word \<Rightarrow> 8 word \<Rightarrow> 32 word \<Rightarrow> error + int"
  recvStream :: "int \<Rightarrow> recvResult list"

definition listPids :: "os \<Rightarrow> error + int list" where
  "listPids w = procPids w"

definition sockdiagSend :: "os \<Rightarrow> 8 word \<Rightarrow> 8 word \<Rightarrow> 32 word \<Rightarrow> error + int" where
  "sockdiagSend w proto family states = sendResult w proto family states"

subsection \<open>Reading the diagnosis stream\<close>

definition IPPROTO_TCP :: int where
  "IPPROTO_TCP = 6"

definition IPPROTO_UDP :: int where
  "IPPROTO_UDP = 17"

text \<open>The zero value a Go map read yields for a missing key.\<close>

definition zeroProcessInfo :: ProcessInfo where
  "zeroProcessInfo = \<lparr>Pid = 0, Name = ''''\<rparr>"

definition inodeLookup :: "(32 word \<rightharpoonup> ProcessInfo) \<Rightarrow> 32 word \<Rightarrow> ProcessInfo" where
  "inodeLookup inodeMap inode = (case inodeMap inode of Some p \<Rightarrow> p | None \<Rightarrow> zeroProcessInfo)"

definition protoName :: "int \<Rightarrow> Protocol" where
  "protoName proto = (if proto = IPPROTO_TCP then ProtoTCP
                      else if proto = IPPROTO_UDP then ProtoUDP else '''')"

text \<open>The key under which a record is stored.\<close>

definition recordSocket :: "host \<Rightarrow> int \<Rightarrow> inetDiagMsg \<Rightarrow> LocalSocket" where
  "recordSocket h proto m =
    \<lparr>LocalIP = fst (ipHex2String h (IDiagFamily m) (IdiagSrc m)),
     LocalPort = word_of_int (be16_Int h (IdiagSport m)),
     LocalProtocol = protoName proto\<rparr>"

text \<open>
  The body of the loop over the messages of one batch, for a message that is not the
  terminator: store the socket, then cache the process under the port when it has a name
  other than the unknown one.
\<close>

definition diagRecord ::
  "host \<Rightarrow> int \<Rightarrow> (32 word \<rightharpoonup> ProcessInfo) \<Rightarrow> inetDiagMsg \<Rightarrow> int \<Rightarrow>
   OpenSockets \<times> netlinkConn \<Rightarrow> panic + (OpenSockets \<times> netlinkConn)" where
  "diagRecord h proto inodeMap m now st =
    (let sockets = fst st; nl = snd st;
         pInfo = inodeLookup inodeMap (IDiagInode m);
         port = LocalPort (recordSocket h proto m);
         sockets' = sockets(recordSocket h proto m \<mapsto> pInfo)
     in if Name pInfo \<noteq> '''' \<and> Name pInfo \<noteq> unknownProcessName h then
          (case portCache nl of
             None \<Rightarrow> Inl NilMapAssignment
           | Some pc \<Rightarrow>
               Inr (sockets',
                    nl\<lparr>portCache := Some (pc(port \<mapsto> \<lparr>info = pInfo, timestamp = now\<rparr>))\<rparr>))
        else Inr (sockets', nl))"

text \<open>
  The loop over one batch. The flag of the result tells whether the terminator was met
  (\<^verbatim>\<open>break loop\<close>).
\<close>

fun diagMsgs ::
  "host \<Rightarrow> int \<Rightarrow> (32 word \<rightharpoonup> ProcessInfo) \<Rightarrow> (NetlinkMessage \<times> int) list \<Rightarrow>
   OpenSockets \<times> netlinkConn \<Rightarrow> panic + (bool \<times> OpenSockets \<times> netlinkConn)" where
  "diagMsgs h proto inodeMap [] st = Inr (False, st)"
| "diagMsgs h proto inodeMap (mt # rest) st =
    (if HeaderType (fst mt) = NLMSG_DONE then Inr (True, st)
     else case Data (fst mt) of
            None \<Rightarrow> Inl IndexOutOfRange
          | Some m \<Rightarrow>
              (case diagRecord h proto inodeMap m (snd mt) st of
                 Inl p \<Rightarrow> Inl p
               | Inr st' \<Rightarrow> diagMsgs h proto inodeMap rest st'))"

text \<open>
  The outer loop. When nothing more arrives the receive times out after 200 ms and
  \<^verbatim>\<open>Recvmsg\<close> returns an error. An error returns the sockets gathered so far with it.
\<close>

fun recvLoop ::
  "host \<Rightarrow> int \<Rightarrow> (32 word \<rightharpoonup> ProcessInfo) \<Rightarrow> recvResult list \<Rightarrow>
   OpenSockets \<times> netlinkConn \<Rightarrow> panic + ((OpenSockets \<times> error option) \<times> netlinkConn)" where
  "recvLoop h proto inodeMap [] st = Inr ((fst st, Some EAGAIN), snd st)"
| "recvLoop h proto inodeMap (r # rs) st =
    (case r of
       RecvErr e \<Rightarrow> Inr ((fst st, Some e), snd st)
     | RecvZero \<Rightarrow> Inr ((fst st, None), snd st)
     | RecvParseErr e \<Rightarrow> Inr ((fst st, Some e), snd st)
     | RecvMsgs msgs \<Rightarrow>
         (case diagMsgs h proto inodeMap msgs st of
            Inl p \<Rightarrow> Inl p
          | Inr res \<Rightarrow>
              if fst res then Inr ((fst (snd res), None), snd (snd res))
              else recvLoop h proto inodeMap rs (snd res)))"

definition sockdiagRecv ::
  "host \<Rightarrow> os \<Rightarrow> netlinkConn \<Rightarrow> int \<Rightarrow> int \<Rightarrow> (32 word \<rightharpoonup> ProcessInfo) \<Rightarrow>
   panic + ((OpenSockets \<times> error option) \<times> netlinkConn)" where
  "sockdiagRecv h w nl skfd proto inodeMap =
    recvLoop h proto inodeMap (recvStream w skfd) (Map.empty, nl)"

subsection \<open>Enumerating the open sockets\<close>

definition tcpEstablished :: "8 word" where
  "tcpEstablished = 0x01"

definition udpConnection :: "8 word" where
  "udpConnection = 0x07"

record Req =
  ReqProtocol :: int
  ReqFamily :: "8 word"
  ReqState :: "32 word"

definition reqs :: "os \<Rightarrow> Req list" where
  "reqs w =
    [\<lparr>ReqProtocol = IPPROTO_TCP, ReqFamily = AF_INET,
      ReqState = 1 OR push_bit (unat tcpEstablished) 1\<rparr>,
     \<lparr>ReqProtocol = IPPROTO_UDP, ReqFamily = AF_INET,
      ReqState = push_bit (unat udpConnection) 1\<rparr>]
    @ (if hasIPv6 w then
         [\<lparr>ReqProtocol = IPPROTO_TCP, ReqFamily = AF_INET6,
           ReqState = 1 OR push_bit (unat tcpEstablished) 1\<rparr>,
          \<lparr>ReqProtocol = IPPROTO_UDP, ReqFamily = AF_INET6,
           ReqState = push_bit (unat udpConnection) 1\<rparr>]
       else [])"

text \<open>The first loop: one request per tuple; the first failure ends the enumeration.\<close>

fun sendAll :: "os \<Rightarrow> Req list \<Rightarrow> error + (int \<times> int) list" where
  "sendAll w [] = Inr []"
| "sendAll w (req # rest) =
    (case sockdiagSend w (word_of_int (ReqProtocol req)) (ReqFamily req) (ReqState req) of
       Inl err \<Rightarrow> Inl err
     | Inr fd \<Rightarrow>
         (case sendAll w rest of
            Inl err \<Rightarrow> Inl err
          | Inr fds \<Rightarrow> Inr ((fd, ReqProtocol req) # fds)))"

text \<open>
  The second loop: the result of each descriptor is merged into \<^verbatim>\<open>sockets\<close>; an error
  returns the sockets merged so far.
\<close>

fun recvAll ::
  "host \<Rightarrow> os \<Rightarrow> (32 word \<rightharpoonup> ProcessInfo) \<Rightarrow> (int \<times> int) list \<Rightarrow>
   OpenSockets \<times> netlinkConn \<Rightarrow> panic + ((OpenSockets \<times> error option) \<times> netlinkConn)" where
  "recvAll h w inodeMap [] st = Inr ((fst st, None), snd st)"
| "recvAll h w inodeMap (fd # fds) st =
    (case sockdiagRecv h w (snd st) (fst fd) (snd fd) inodeMap of
       Inl p \<Rightarrow> Inl p
     | Inr res \<Rightarrow>
         (case snd (fst res) of
            Some err \<Rightarrow> Inr ((fst st, Some err), snd res)
          | None \<Rightarrow> recvAll h w inodeMap fds (fst st ++ fst (fst res), snd res)))"

text \<open>
  A failed send returns the \<^verbatim>\<open>nil\<close> map, which reads as the empty one.
\<close>

definition getOpenSockets ::
  "host \<Rightarrow> os \<Rightarrow> netlinkConn \<Rightarrow> (32 word \<rightharpoonup> ProcessInfo) \<Rightarrow>
   panic + ((OpenSockets \<times> error option) \<times> netlinkConn)" where
  "getOpenSockets h w nl inodeMap =
    (case sendAll w (reqs w) of
       Inl err \<Rightarrow> Inr ((Map.empty, Some err), nl)
     | Inr fds \<Rightarrow> recvAll h w inodeMap fds (Map.empty, nl))"

subsection \<open>The inode map\<close>

definition cacheTimeout :: int where
  "cacheTimeout = 5 * Second"

text \<open>The cached entries that are still valid seed the map.\<close>

definition validCached :: "netlinkConn \<Rightarrow> int \<Rightarrow> (32 word \<rightharpoonup> ProcessInfo)" where
  "validCached nl now =
    (\<lambda>inode. case inodeCacheAt nl inode of
                None \<Rightarrow> None
              | Some cached \<Rightarrow>
                  if now - timestamp cached < cacheTimeout then Some (info cached) else None)"

text \<open>
  A worker sends a result for every pid whose scan returned no error; the results reach
  the collector in the order the scheduler gives them.
\<close>

definition workerResults :: "os \<Rightarrow> int list \<Rightarrow> scanResult list" where
  "workerResults w pids =
    arrival w
      (map (\<lambda>pid. \<lparr>procInfo = \<lparr>Pid = pid, Name = fst (procInodes w pid)\<rparr>,
                   inodes = fst (snd (procInodes w pid))\<rparr>)
           (filter (\<lambda>pid. snd (snd (procInodes w pid)) = None) pids))"

text \<open>The collector: every inode of every result goes into the map and into the cache.\<close>

fun collectInodes ::
  "ProcessInfo \<Rightarrow> int \<Rightarrow> 32 word list \<Rightarrow> (32 word \<rightharpoonup> ProcessInfo) \<times> netlinkConn \<Rightarrow>
   panic + ((32 word \<rightharpoonup> ProcessInfo) \<times> netlinkConn)" where
  "collectInodes p now [] st = Inr st"
| "collectInodes p now (inode # rest) st =
    (case inodeCache (snd st) of
       None \<Rightarrow> Inl NilMapAssignment
     | Some ic \<Rightarrow>
         collectInodes p now rest
           ((fst st)(inode \<mapsto> p),
            (snd st)\<lparr>inodeCache := Some (ic(inode \<mapsto> \<lparr>info = p, timestamp = now\<rparr>))\<rparr>))"

fun collectResults ::
  "int \<Rightarrow> scanResult list \<Rightarrow> (32 word \<rightharpoonup> ProcessInfo) \<times> netlinkConn \<Rightarrow>
   panic + ((32 word \<rightharpoonup> ProcessInfo) \<times> netlinkConn)" where
  "collectResults now [] st = Inr st"
| "collectResults now (res # rest) st =
    (case collectInodes (procInfo res) now (inodes res) st of
       Inl p \<Rightarrow> Inl p
     | Inr st' \<Rightarrow> collectResults now rest st')"

text \<open>The sweep at the end deletes every entry whose age has reached the timeout.\<close>

definition sweepInodeCache :: "int \<Rightarrow> netlinkConn \<Rightarrow> netlinkConn" where
  "sweepInodeCache now nl =
    nl\<lparr>inodeCache :=
         map_option
           (\<lambda>ic inode. case ic inode of
                          None \<Rightarrow> None
                        | Some cached \<Rightarrow>
                            if now - timestamp cached \<ge> cacheTimeout then None else Some cached)
           (inodeCache nl)\<rparr>"

definition getAllProcsInodes ::
  "os \<Rightarrow> netlinkConn \<Rightarrow> int list \<Rightarrow> panic + ((32 word \<rightharpoonup> ProcessInfo) \<times> netlinkConn)" where
  "getAllProcsInodes w nl pids =
    (let now = timeNow w in
     case collectResults now (workerResults w pids) (validCached nl now, nl) of
       Inl p \<Rightarrow> Inl p
     | Inr st \<Rightarrow> Inr (fst st, sweepInodeCache now (snd st)))"

definition GetOpenSockets ::
  "host \<Rightarrow> os \<Rightarrow> netlinkConn \<Rightarrow> panic + ((OpenSockets \<times> error option) \<times> netlinkConn)" where
  "GetOpenSockets h w nl =
    (case listPids w of
       Inl err \<Rightarrow> Inr ((Map.empty, Some err), nl)
     | Inr pids \<Rightarrow>
         (case getAllProcsInodes w nl pids of
            Inl p \<Rightarrow> Inl p
          | Inr st \<Rightarrow> getOpenSockets h w (snd st) (fst st)))"

section \<open>The process monitor\<close>

text \<open>
  The monitor owns the socket map and a connection of its own. \<^verbatim>\<open>NewProcessMonitor\<close>
  builds the connection as \<^verbatim>\<open>&netlinkConn{}\<close>, so both of its caches are nil maps.
\<close>

record ProcessMonitor =
  socketMap :: OpenSockets
  nlConn :: netlinkConn

definition NewProcessMonitor :: ProcessMonitor where
  "NewProcessMonitor =
    \<lparr>socketMap = Map.empty, nlConn = \<lparr>inodeCache = None, portCache = None\<rparr>\<rparr>"

text \<open>
  \<^verbatim>\<open>RefreshProcesses\<close> returns its error (\<open>None\<close> for \<^verbatim>\<open>nil\<close>) and the monitor as the call
  leaves it. The connection is reached through a pointer, so what the call did to the
  caches stays whether or not the socket map is replaced.
\<close>

definition RefreshProcesses ::
  "host \<Rightarrow> os \<Rightarrow> ProcessMonitor \<Rightarrow> panic + (error option \<times> ProcessMonitor)" where
  "RefreshProcesses h w pm =
    (case listPids w of
       Inl err \<Rightarrow> Inr (Some err, pm)
     | Inr pids \<Rightarrow>
         (case getAllProcsInodes w (nlConn pm) pids of
            Inl p \<Rightarrow> Inl p
          | Inr st \<Rightarrow>
              (case getOpenSockets h w (snd st) (fst st) of
                 Inl p \<Rightarrow> Inl p
               | Inr res \<Rightarrow>
                   (case snd (fst res) of
                      Some err \<Rightarrow> Inr (Some err, pm\<lparr>nlConn := snd res\<rparr>)
                    | None \<Rightarrow>
                        Inr (None, pm\<lparr>socketMap := fst (fst res), nlConn := snd res\<rparr>)))))"

text \<open>
  \<^verbatim>\<open>GetProcess\<close>: the exact socket first, then the same socket with the address replaced
  by each wildcard in turn.
\<close>

definition GetProcess :: "ProcessMonitor \<Rightarrow> LocalSocket \<Rightarrow> ProcessInfo option" where
  "GetProcess pm socket =
    (case socketMap pm socket of
       Some proc \<Rightarrow> Some proc
     | None \<Rightarrow>
         (case socketMap pm (socket\<lparr>LocalIP := ''*''\<rparr>) of
            Some proc \<Rightarrow> Some proc
          | None \<Rightarrow>
              (case socketMap pm (socket\<lparr>LocalIP := ''0.0.0.0''\<rparr>) of
                 Some proc \<Rightarrow> Some proc
               | None \<Rightarrow>
                   (case socketMap pm (socket\<lparr>LocalIP := ''::''\<rparr>) of
                      Some proc \<Rightarrow> Some proc
                    | None \<Rightarrow> None))))"

subsection \<open>The fallback ladder as the specification words it\<close>

text \<open>
  The four keys in the order the specification lists them, and the first of them the map
  holds.
\<close>

definition ladder :: "LocalSocket \<Rightarrow> LocalSocket list" where
  "ladder socket =
    [socket, socket\<lparr>LocalIP := ''*''\<rparr>, socket\<lparr>LocalIP := ''0.0.0.0''\<rparr>,
     socket\<lparr>LocalIP := ''::''\<rparr>]"

fun firstHit :: "OpenSockets \<Rightarrow> LocalSocket list \<Rightarrow> ProcessInfo option" where
  "firstHit m [] = None"
| "firstHit m (k # ks) = (case m k of Some p \<Rightarrow> Some p | None \<Rightarrow> firstHit m ks)"

section \<open>The port fallback of the stats manager\<close>

text \<open>\<^verbatim>\<open>ProcessInfo.String\<close> prints \<^verbatim>\<open><pid>:name\<close> with the pid in decimal.\<close>

fun digitsOf :: "nat \<Rightarrow> string" where
  "digitsOf n =
    (if n < 10 then [''0123456789'' ! n]
     else digitsOf (n div 10) @ [''0123456789'' ! (n mod 10)])"

definition formatInt :: "int \<Rightarrow> string" where
  "formatInt i = (if i < 0 then ''-'' @ digitsOf (nat (- i)) else digitsOf (nat i))"

definition ProcessInfo_String :: "ProcessInfo \<Rightarrow> string" where
  "ProcessInfo_String p = ''<'' @ formatInt (Pid p) @ ''>:'' @ Name p"

text \<open>
  The \<^verbatim>\<open>SocketFetcher\<close> interface value the manager holds: its dynamic type is
  \<^verbatim>\<open>*netlinkConn\<close> (a pointer that may itself be nil) or another type; \<open>None\<close> is the nil
  interface.
\<close>

datatype SocketFetcher = NetlinkFetcher "netlinkConn option" | OtherFetcher

text \<open>\<open>now\<close> is the clock reading \<^verbatim>\<open>time.Since\<close> takes.\<close>

definition getProcNameFallback :: "SocketFetcher option \<Rightarrow> int \<Rightarrow> LocalSocket \<Rightarrow> string" where
  "getProcNameFallback fetcher now localSocket =
    (case fetcher of
       None \<Rightarrow> ''''
     | Some OtherFetcher \<Rightarrow> ''''
     | Some (NetlinkFetcher None) \<Rightarrow> ''''
     | Some (NetlinkFetcher (Some nl)) \<Rightarrow>
         (case portCacheAt nl (LocalPort localSocket) of
            None \<Rightarrow> ''''
          | Some cached \<Rightarrow>
              if now - timestamp cached < 5 * Second then ProcessInfo_String (info cached)
              else ''''))"

section \<open>The capture client\<close>

text \<open>
  A decoded layer as \<^verbatim>\<open>parsePacket\<close> reads it: the addresses of an IP layer in their
  text form, and the ports, header bytes (\<^verbatim>\<open>Contents\<close>) and payload of a transport layer.
  Any other layer type matches no case of the type switch.
\<close>

datatype Layer =
    IPv4 string string
  | IPv6 string string
  | TCP "16 word" "16 word" "8 word list" "8 word list"
  | UDP "16 word" "16 word" "8 word list" "8 word list"
  | OtherLayer

record pcapHandler =
  device :: string
  handle :: nat

text \<open>
  \<^verbatim>\<open>bindIPs\<close> is a \<^verbatim>\<open>map[string]bool\<close> that is only indexed: a missing key reads as
  \<^verbatim>\<open>false\<close>.
\<close>

record PcapClient =
  bindIPs :: "string \<Rightarrow> bool"
  handlers :: "pcapHandler list"
  bpfFilter :: string
  Sinker :: Sinker
  devicesPrefix :: "string list"
  disableDNSResolve :: bool
  allDevices :: bool
  lookup :: "string \<Rightarrow> string"
  processMonitor :: "ProcessMonitor option"

text \<open>The local variables of \<^verbatim>\<open>parsePacket\<close>.\<close>

record parseVars =
  srcPort :: "16 word"
  dstPort :: "16 word"
  srcIP :: string
  dstIP :: string
  protocol :: Protocol
  dataLen :: go_int
  direction :: Direction

definition parseVars0 :: parseVars where
  "parseVars0 =
    \<lparr>srcPort = 0, dstPort = 0, srcIP = '''', dstIP = '''', protocol = '''', dataLen = 0,
     direction = DirectionDownload\<rparr>"

text \<open>One round of the loop over the decoded layers.\<close>

fun parseLayer :: "PcapClient \<Rightarrow> parseVars \<Rightarrow> Layer \<Rightarrow> parseVars" where
  "parseLayer c v (IPv4 src dst) =
    v\<lparr>srcIP := src, dstIP := dst,
      direction := (if bindIPs c src then DirectionUpload else direction v)\<rparr>"
| "parseLayer c v (IPv6 src dst) =
    v\<lparr>srcIP := src, dstIP := dst,
      direction := (if bindIPs c src then DirectionUpload else direction v)\<rparr>"
| "parseLayer c v (TCP sp dp contents payload) =
    v\<lparr>protocol := ProtoTCP, srcPort := sp, dstPort := dp,
      dataLen := of_nat (length contents) + of_nat (length payload)\<rparr>"
| "parseLayer c v (UDP sp dp contents payload) =
    v\<lparr>protocol := ProtoUDP, srcPort := sp, dstPort := dp,
      dataLen := of_nat (length contents) + of_nat (length payload)\<rparr>"
| "parseLayer c v OtherLayer = v"

text \<open>The process lookup both branches make once the connection is built.\<close>

definition enrich :: "PcapClient \<Rightarrow> LocalSocket \<Rightarrow> ProcessInfo option" where
  "enrich c l = (case processMonitor c of None \<Rightarrow> None | Some pm \<Rightarrow> GetProcess pm l)"

definition zeroConnection :: Connection where
  "zeroConnection =
    \<lparr>Local = \<lparr>LocalIP = '''', LocalPort = 0, LocalProtocol = ''''\<rparr>,
     Remote = \<lparr>RemoteIP = '''', RemotePort = 0\<rparr>\<rparr>"

definition parsePacket :: "PcapClient \<Rightarrow> pcapHandler \<Rightarrow> Layer list \<Rightarrow> Segment option" where
  "parsePacket c ph decoded =
    (let v = foldl (parseLayer c) parseVars0 decoded in
     if protocol v = '''' then None
     else if direction v = DirectionUpload then
       (let remoteIP = (if protocol v = ProtoTCP \<and> \<not> disableDNSResolve c
                        then lookup c (dstIP v) else dstIP v);
            l = \<lparr>LocalIP = srcIP v, LocalPort = srcPort v, LocalProtocol = protocol v\<rparr>
        in Some \<lparr>SegInterface = device ph, DataLen = dataLen v,
                 Connection = \<lparr>Local = l,
                               Remote = \<lparr>RemoteIP = remoteIP, RemotePort = dstPort v\<rparr>\<rparr>,
                 Direction = direction v, SegProcess = enrich c l\<rparr>)
     else if direction v = DirectionDownload then
       (let remoteIP = (if protocol v = ProtoTCP \<and> \<not> disableDNSResolve c
                        then lookup c (srcIP v) else srcIP v);
            l = \<lparr>LocalIP = dstIP v, LocalPort = dstPort v, LocalProtocol = protocol v\<rparr>
        in Some \<lparr>SegInterface = device ph, DataLen = dataLen v,
                 Connection = \<lparr>Local = l,
                               Remote = \<lparr>RemoteIP = remoteIP, RemotePort = srcPort v\<rparr>\<rparr>,
                 Direction = direction v, SegProcess = enrich c l\<rparr>)
     else Some \<lparr>SegInterface = device ph, DataLen = dataLen v, Connection = zeroConnection,
                Direction = direction v, SegProcess = None\<rparr>)"

subsection \<open>Opening the devices\<close>

text \<open>
  A device as \<^verbatim>\<open>pcap.FindAllDevs\<close> reports it, with its addresses in text form, and the
  calls into the capture libraries: the device list, opening a handle on a device, and
  compiling and setting the filter on a handle.
\<close>

record PcapInterface =
  DevName :: string
  Addresses :: "string list"

record capture =
  findAllDevs :: "error + PcapInterface list"
  newTPacket :: "string \<Rightarrow> error + nat"
  setBPF :: "nat \<Rightarrow> string \<Rightarrow> error option"

definition ListAllDevices :: "capture \<Rightarrow> error + PcapInterface list" where
  "ListAllDevices env = findAllDevs env"

definition listPrefixDevices ::
  "capture \<Rightarrow> string list \<Rightarrow> bool \<Rightarrow> error + PcapInterface list" where
  "listPrefixDevices env pre allowAll =
    (case ListAllDevices env of
       Inl err \<Rightarrow> Inl err
     | Inr everything \<Rightarrow>
         Inr (filter (\<lambda>dev. allowAll \<or> list_ex (\<lambda>p. prefix p (DevName dev)) pre) everything))"

definition getHandler :: "capture \<Rightarrow> string \<Rightarrow> error + nat" where
  "getHandler env dev = newTPacket env dev"

definition setBPFFilter :: "capture \<Rightarrow> nat \<Rightarrow> string \<Rightarrow> error option" where
  "setBPFFilter env h flt = setBPF env h flt"

definition bindAll :: "(string \<Rightarrow> bool) \<Rightarrow> string list \<Rightarrow> (string \<Rightarrow> bool)" where
  "bindAll b addrs = foldl (\<lambda>m a. m(a := True)) b addrs"

text \<open>
  The loop over the selected devices: every device that opens adds a handler and puts all
  of its addresses into the one \<^verbatim>\<open>bindIPs\<close> map of the client.
\<close>

fun openDevices :: "capture \<Rightarrow> PcapInterface list \<Rightarrow> PcapClient \<Rightarrow> error + PcapClient" where
  "openDevices env [] c = Inr c"
| "openDevices env (dev # devs) c =
    (case getHandler env (DevName dev) of
       Inl err \<Rightarrow> Inl (Wrapf err (''get device('' @ DevName dev @ '') name failed''))
     | Inr h \<Rightarrow>
         (case (if bpfFilter c \<noteq> '''' then setBPFFilter env h (bpfFilter c) else None) of
            Some err \<Rightarrow> Inl (Wrapf err (''set bpf-filter('' @ bpfFilter c @ '') failed''))
          | None \<Rightarrow>
              openDevices env devs
                (c\<lparr>handlers := handlers c @ [\<lparr>device = DevName dev, handle = h\<rparr>],
                   bindIPs := bindAll (bindIPs c) (Addresses dev)\<rparr>)))"

definition getAvailableDevices :: "capture \<Rightarrow> PcapClient \<Rightarrow> error + PcapClient" where
  "getAvailableDevices env c =
    (case listPrefixDevices env (devicesPrefix c) (allDevices c) of
       Inl err \<Rightarrow> Inl err
     | Inr devs \<Rightarrow>
         (case openDevices env devs c of
            Inl err \<Rightarrow> Inl err
          | Inr c' \<Rightarrow>
              if length (handlers c') = 0 then Inl (ErrorString ''no available devices found'')
              else Inr c'))"

record Options =
  BPFFilter :: string
  DevicesPrefix :: "string list"
  DisableDNSResolve :: bool
  AllDevices :: bool

definition NewPcapClient ::
  "capture \<Rightarrow> (string \<Rightarrow> string) \<Rightarrow> Options \<Rightarrow> ProcessMonitor option \<Rightarrow> error + PcapClient" where
  "NewPcapClient env lk opt pm =
    getAvailableDevices env
      \<lparr>bindIPs = (\<lambda>_. False), handlers = [], bpfFilter = BPFFilter opt, Sinker = NewSinker,
       devicesPrefix = DevicesPrefix opt, disableDNSResolve = DisableDNSResolve opt,
       allDevices = AllDevices opt, lookup = lk, processMonitor = pm\<rparr>"

text \<open>
  Modelled from the spec: the DNS resolver's \<^verbatim>\<open>Lookup\<close> is not among the sources. The
  specification describes it as \<^verbatim>\<open>lookup(ip) -> string\<close> that returns its input on a miss;
  here it answers from a table of resolved names.
\<close>

definition Lookup :: "(string \<rightharpoonup> string) \<Rightarrow> string \<Rightarrow> string" where
  "Lookup table ip = (case table ip of Some host \<Rightarrow> host | None \<Rightarrow> ip)"

section \<open>The literal scenarios of the specification\<close>

text \<open>
  The resolver map of scenario 1, the DNS answers of scenario 2 (\<^verbatim>\<open>1.1.1.1\<close> resolves to
  \<^verbatim>\<open>one.one.one.one\<close>, any other address to itself), and a client bound to 10.0.0.2 on
  \<^verbatim>\<open>eth0\<close>, with DNS resolution disabled or not.
\<close>

definition scenarioMonitor :: ProcessMonitor where
  "scenarioMonitor =
    \<lparr>socketMap = [\<lparr>LocalIP = ''10.0.0.2'', LocalPort = 50000, LocalProtocol = ProtoTCP\<rparr>
                     \<mapsto> \<lparr>Pid = 42, Name = ''curl''\<rparr>],
     nlConn = GetSocketFetcher\<rparr>"

definition scenarioLookup :: "string \<Rightarrow> string" where
  "scenarioLookup ip = (if ip = ''1.1.1.1'' then ''one.one.one.one'' else ip)"

definition scenarioHandler :: pcapHandler where
  "scenarioHandler = \<lparr>device = ''eth0'', handle = 0\<rparr>"

definition scenarioClient :: "bool \<Rightarrow> PcapClient" where
  "scenarioClient noDNS =
    \<lparr>bindIPs = (\<lambda>_. False)(''10.0.0.2'' := True), handlers = [scenarioHandler],
     bpfFilter = ''tcp or udp'', Sinker = NewSinker, devicesPrefix = [],
     disableDNSResolve = noDNS, allDevices = True, lookup = scenarioLookup,
     processMonitor = Some scenarioMonitor\<rparr>"

text \<open>
  The same client with the resolver of the specification in place of the lookup function,
  answering from a table that knows \<^verbatim>\<open>1.1.1.1\<close> only.
\<close>

definition scenarioTable :: "string \<rightharpoonup> string" where
  "scenarioTable = [''1.1.1.1'' \<mapsto> ''one.one.one.one'']"

definition tableClient :: PcapClient where
  "tableClient = (scenarioClient False)\<lparr>lookup := Lookup scenarioTable\<rparr>"

text \<open>A 20-byte header and a 100-byte payload.\<close>

definition scenarioHeader :: "8 word list" where
  "scenarioHeader = replicate 20 0"

definition scenarioPayload :: "8 word list" where
  "scenarioPayload = replicate 100 0"

text \<open>
  Two monitored interfaces with one address each, both of which open, and the options
  \<^verbatim>\<open>DefaultOptions\<close> returns.
\<close>

definition eth0Dev :: PcapInterface where
  "eth0Dev = \<lparr>DevName = ''eth0'', Addresses = [''10.0.0.2'']\<rparr>"

definition eth1Dev :: PcapInterface where
  "eth1Dev = \<lparr>DevName = ''eth1'', Addresses = [''10.0.1.2'']\<rparr>"

definition twoDevices :: capture where
  "twoDevices =
    \<lparr>findAllDevs = Inr [eth0Dev, eth1Dev],
     newTPacket = (\<lambda>dev. Inr (if dev = ''eth0'' then 0 else 1)),
     setBPF = (\<lambda>h flt. None)\<rparr>"

definition DefaultOptions :: Options where
  "DefaultOptions =
    \<lparr>BPFFilter = ''tcp or udp'', DevicesPrefix = [''en'', ''lo'', ''eth'', ''em'', ''bond''],
     DisableDNSResolve = False, AllDevices = False\<rparr>"

definition twoDeviceClient :: "error + PcapClient" where
  "twoDeviceClient = NewPcapClient twoDevices (\<lambda>ip. ip) DefaultOptions None"

text \<open>The wildcard-bound listener of scenario 3.\<close>

definition nginxMonitor :: ProcessMonitor where
  "nginxMonitor =
    \<lparr>socketMap = [\<lparr>LocalIP = ''0.0.0.0'', LocalPort = 8080, LocalProtocol = ProtoTCP\<rparr>
                     \<mapsto> \<lparr>Pid = 7, Name = ''nginx''\<rparr>],
     nlConn = GetSocketFetcher\<rparr>"

subsection \<open>A host and small worlds for the resolver\<close>

text \<open>
  A stand-in for \<^verbatim>\<open>net.IP.String\<close> that prints the last four bytes of a 16-byte address as
  a dotted quad, on a little-endian host whose unknown name is \<^verbatim>\<open><UNKNOWN>\<close>.
\<close>

definition dottedQuad :: "8 word list \<Rightarrow> string" where
  "dottedQuad bs =
    (case drop 12 bs of
       [a, b, c, d] \<Rightarrow>
         formatInt (uint a) @ ''.'' @ formatInt (uint b) @ ''.'' @ formatInt (uint c) @ ''.''
           @ formatInt (uint d)
     | _ \<Rightarrow> ''?'')"

definition scenarioHost :: host where
  "scenarioHost =
    \<lparr>IP_String = dottedQuad, nativeBigEndian = False, unknownProcessName = ''<UNKNOWN>''\<rparr>"

text \<open>
  Two diagnosis records: a listener on 0.0.0.0:8080 whose inode 4242 belongs to process 7
  (\<^verbatim>\<open>nginx\<close>), and a socket on 0.0.0.0:22 whose inode 999 no scanned process owns.
\<close>

definition anyAddr :: "be32 \<times> be32 \<times> be32 \<times> be32" where
  "anyAddr = ((0, 0, 0, 0), (0, 0, 0, 0), (0, 0, 0, 0), (0, 0, 0, 0))"

definition nginxRecord :: inetDiagMsg where
  "nginxRecord =
    \<lparr>IDiagFamily = AF_INET, IdiagSport = (0x1F, 0x90), IdiagSrc = anyAddr, IDiagInode = 4242\<rparr>"

definition orphanRecord :: inetDiagMsg where
  "orphanRecord =
    \<lparr>IDiagFamily = AF_INET, IdiagSport = (0x00, 0x16), IdiagSrc = anyAddr, IDiagInode = 999\<rparr>"

definition diagMessage :: "inetDiagMsg \<Rightarrow> NetlinkMessage" where
  "diagMessage m = \<lparr>HeaderType = 20, Data = Some m\<rparr>"

definition doneMessage :: NetlinkMessage where
  "doneMessage = \<lparr>HeaderType = NLMSG_DONE, Data = None\<rparr>"

text \<open>
  A world at clock reading 6 s with the one process \<^verbatim>\<open>nginx\<close>: the TCP request gets
  descriptor 3, which delivers the two records and the terminator; the UDP request gets
  descriptor 4, which delivers the terminator only.
\<close>

definition scenarioOS :: os where
  "scenarioOS =
    \<lparr>procPids = Inr [7],
     procInodes = (\<lambda>pid. (''nginx'', [4242], None)),
     arrival = (\<lambda>rs. rs),
     timeNow = 6 * Second,
     hasIPv6 = False,
     sendResult = (\<lambda>proto family states. Inr (if proto = 6 then 3 else 4)),
     recvStream = (\<lambda>fd. if fd = 3
                         then [RecvMsgs [(diagMessage nginxRecord, 6 * Second + 1),
                                         (diagMessage orphanRecord, 6 * Second + 2),
                                         (doneMessage, 6 * Second + 3)]]
                         else [RecvMsgs [(doneMessage, 6 * Second + 4)]])\<rparr>"

text \<open>
  A quiet world at clock reading 6 s: no process, and every descriptor delivers the
  terminator at once. And a world in which the process directory cannot be listed.
\<close>

definition quietOS :: os where
  "quietOS =
    \<lparr>procPids = Inr [],
     procInodes = (\<lambda>pid. ([], [], None)),
     arrival = (\<lambda>rs. rs),
     timeNow = 6 * Second,
     hasIPv6 = False,
     sendResult = (\<lambda>proto family states. Inr (if proto = 6 then 3 else 4)),
     recvStream = (\<lambda>fd. [RecvMsgs [(doneMessage, 6 * Second + 1)]])\<rparr>"

definition failingOS :: os where
  "failingOS = quietOS\<lparr>procPids := Inl (Errno 13)\<rparr>"

text \<open>
  A connection whose caches were filled at clock reading 0: inode 77 and port 5555 both
  point to process 1234 (\<^verbatim>\<open>foo\<close>).
\<close>

definition fooCache :: processCache where
  "fooCache = \<lparr>info = \<lparr>Pid = 1234, Name = ''foo''\<rparr>, timestamp = 0\<rparr>"

definition fooConn :: netlinkConn where
  "fooConn = \<lparr>inodeCache = Some [77 \<mapsto> fooCache], portCache = Some [5555 \<mapsto> fooCache]\<rparr>"

text \<open>
  The same world, except that the second descriptor delivers nothing before the receive
  timeout. And a monitor over a connection with allocated caches whose socket map holds
  one entry of an earlier refresh.
\<close>

definition timeoutOS :: os where
  "timeoutOS = scenarioOS\<lparr>recvStream := (\<lambda>fd. if fd = 3 then recvStream scenarioOS 3 else [])\<rparr>"

definition staleMonitor :: ProcessMonitor where
  "staleMonitor =
    \<lparr>socketMap = [\<lparr>LocalIP = ''10.0.0.2'', LocalPort = 50000, LocalProtocol = ProtoTCP\<rparr>
                     \<mapsto> \<lparr>Pid = 42, Name = ''curl''\<rparr>],
     nlConn = GetSocketFetcher\<rparr>"

section \<open>Predicates of the statements about the resolver\<close>

text \<open>
  A name the port cache may hold: neither empty nor the unknown one.
\<close>

definition namedProcess :: "host \<Rightarrow> ProcessInfo \<Rightarrow> bool" where
  "namedProcess h p = (Name p \<noteq> '''' \<and> Name p \<noteq> unknownProcessName h)"

definition portCacheNamed :: "host \<Rightarrow> netlinkConn \<Rightarrow> bool" where
  "portCacheNamed h nl =
    (\<forall>port cached. portCacheAt nl port = Some cached \<longrightarrow> namedProcess h (info cached))"

text \<open>
  What reading the diagnosis stream may do to a connection: the inode cache stays as it
  is, the port cache keeps an entry for every port it had one for, and it holds named
  processes only if it did before.
\<close>

definition portCacheExtends :: "host \<Rightarrow> netlinkConn \<Rightarrow> netlinkConn \<Rightarrow> bool" where
  "portCacheExtends h nl nl' =
    (inodeCache nl' = inodeCache nl
     \<and> (\<forall>port. portCacheAt nl port \<noteq> None \<longrightarrow> portCacheAt nl' port \<noteq> None)
     \<and> (portCacheNamed h nl \<longrightarrow> portCacheNamed h nl'))"

text \<open>Every entry of the inode cache is younger than the timeout at the reading \<open>now\<close>.\<close>

definition inodeCacheFresh :: "int \<Rightarrow> netlinkConn \<Rightarrow> bool" where
  "inodeCacheFresh now nl =
    (\<forall>inode cached. inodeCacheAt nl inode = Some cached \<longrightarrow>
       now - timestamp cached < cacheTimeout)"

subsection \<open>The records a stream delivers\<close>

text \<open>
  The messages of a batch before its terminator, whether the batch has a terminator, and
  the messages \<^verbatim>\<open>sockdiagRecv\<close> handles from a stream: those of each batch up to the first
  terminator, error or empty read.
\<close>

definition batchRecords :: "(NetlinkMessage \<times> int) list \<Rightarrow> NetlinkMessage list" where
  "batchRecords msgs = map fst (takeWhile (\<lambda>mt. HeaderType (fst mt) \<noteq> NLMSG_DONE) msgs)"

definition terminated :: "(NetlinkMessage \<times> int) list \<Rightarrow> bool" where
  "terminated msgs = list_ex (\<lambda>mt. HeaderType (fst mt) = NLMSG_DONE) msgs"

fun streamRecords :: "recvResult list \<Rightarrow> NetlinkMessage list" where
  "streamRecords [] = []"
| "streamRecords (RecvMsgs msgs # rs) =
    batchRecords msgs @ (if terminated msgs then [] else streamRecords rs)"
| "streamRecords (r # rs) = []"

text \<open>
  The entry a record asks for: its socket and the process of its inode, the zero
  \<^verbatim>\<open>ProcessInfo\<close> when the inode map has none. The entries of a list of messages are those
  of their records, in order.
\<close>

definition recordEntry ::
  "host \<Rightarrow> int \<Rightarrow> (32 word \<rightharpoonup> ProcessInfo) \<Rightarrow> inetDiagMsg \<Rightarrow> LocalSocket \<times> ProcessInfo" where
  "recordEntry h proto inodeMap m =
    (recordSocket h proto m, inodeLookup inodeMap (IDiagInode m))"

definition entriesOf ::
  "host \<Rightarrow> int \<Rightarrow> (32 word \<rightharpoonup> ProcessInfo) \<Rightarrow> NetlinkMessage list \<Rightarrow>
   (LocalSocket \<times> ProcessInfo) list" where
  "entriesOf h proto inodeMap msgs =
    map (recordEntry h proto inodeMap) (List.map_filter Data msgs)"

text \<open>The entries of all streams of an enumeration, in the order they are read.\<close>

definition enumerated ::
  "host \<Rightarrow> os \<Rightarrow> (32 word \<rightharpoonup> ProcessInfo) \<Rightarrow> (int \<times> int) list \<Rightarrow>
   (LocalSocket \<times> ProcessInfo) list" where
  "enumerated h w inodeMap fds =
    concat (map (\<lambda>fd. entriesOf h (snd fd) inodeMap (streamRecords (recvStream w (fst fd)))) fds)"

section \<open>Properties of the sink\<close>

lemma DirectionUpload_neq_Download: "DirectionUpload \<noteq> DirectionDownload"
  by (simp add: DirectionUpload_def DirectionDownload_def)

lemma Fetch_other: "Connection seg \<noteq> k \<Longrightarrow> utilization (Fetch c seg) k = utilization c k"
  by (simp add: Fetch_def Let_def)

lemma Fetch_present:
  "utilization c (Connection seg) = Some ci \<Longrightarrow>
   utilization (Fetch c seg) (Connection seg) = Some (addTallies (Connection seg) [seg] ci)"
  by (simp add: Fetch_def Let_def addTallies_def sumBytes_def countPackets_def segsOf_def
      DirectionUpload_neq_Download)

lemma Fetch_absent:
  "utilization c (Connection seg) = None \<Longrightarrow>
   utilization (Fetch c seg) (Connection seg) = windowEntry (Connection seg) [seg]"
  by (simp add: Fetch_def Let_def windowEntry_def sumBytes_def countPackets_def segsOf_def
      DirectionUpload_neq_Download)

lemma addTallies_Cons_same:
  "Connection seg = k \<Longrightarrow> addTallies k segs (addTallies k [seg] ci) = addTallies k (seg # segs) ci"
  by (simp add: addTallies_def sumBytes_def countPackets_def segsOf_def add.assoc)

lemma segsOf_Cons_other:
  "Connection seg \<noteq> k \<Longrightarrow> segsOf k d (seg # segs) = segsOf k d segs"
  by (simp add: segsOf_def)

lemma windowEntry_Cons_other:
  "Connection seg \<noteq> k \<Longrightarrow> windowEntry k (seg # segs) = windowEntry k segs"
  by (simp add: windowEntry_def sumBytes_def countPackets_def segsOf_Cons_other
      split: list.split)

lemma addTallies_Cons_other:
  "Connection seg \<noteq> k \<Longrightarrow> addTallies k (seg # segs) ci = addTallies k segs ci"
  by (simp add: addTallies_def sumBytes_def countPackets_def segsOf_def)

lemma windowEntry_Cons_same:
  "Connection seg = k \<Longrightarrow> windowEntry k [seg] = Some e \<Longrightarrow>
   windowEntry k (seg # segs) = Some (addTallies k segs e)"
  by (auto simp add: windowEntry_def addTallies_def sumBytes_def countPackets_def segsOf_def
      DirectionUpload_neq_Download DirectionUpload_neq_Download [symmetric])

lemma windowEntry_single: "windowEntry (Connection seg) [seg] \<noteq> None"
  by (simp add: windowEntry_def)

lemma FetchAll_present:
  "utilization c k = Some ci \<Longrightarrow> utilization (FetchAll c segs) k = Some (addTallies k segs ci)"
proof (induction segs arbitrary: c ci)
  case Nil
  then show ?case
    by (simp add: FetchAll_def addTallies_def sumBytes_def countPackets_def segsOf_def)
next
  case (Cons seg segs)
  show ?case
  proof (cases "Connection seg = k")
    case True
    with Cons.prems have "utilization (Fetch c seg) k = Some (addTallies k [seg] ci)"
      using Fetch_present [of c seg ci] by simp
    from Cons.IH [OF this] True show ?thesis
      by (simp add: FetchAll_def addTallies_Cons_same)
  next
    case False
    with Cons.prems have "utilization (Fetch c seg) k = Some ci"
      by (simp add: Fetch_other)
    from Cons.IH [OF this] False show ?thesis
      by (simp add: FetchAll_def addTallies_Cons_other)
  qed
qed

lemma FetchAll_absent:
  "utilization c k = None \<Longrightarrow> utilization (FetchAll c segs) k = windowEntry k segs"
proof (induction segs arbitrary: c)
  case Nil
  then show ?case by (simp add: FetchAll_def windowEntry_def)
next
  case (Cons seg segs)
  show ?case
  proof (cases "Connection seg = k")
    case True
    obtain e where e: "windowEntry k [seg] = Some e"
      using windowEntry_single [of seg] True by auto
    with Cons.prems True have "utilization (Fetch c seg) k = Some e"
      using Fetch_absent [of c seg] by simp
    then have "utilization (FetchAll (Fetch c seg) segs) k = Some (addTallies k segs e)"
      by (rule FetchAll_present)
    with True e show ?thesis
      by (simp add: FetchAll_def windowEntry_Cons_same)
  next
    case False
    with Cons.prems have "utilization (Fetch c seg) k = None"
      by (simp add: Fetch_other)
    from Cons.IH [OF this] False show ?thesis
      by (simp add: FetchAll_def windowEntry_Cons_other)
  qed
qed

lemma word_of_int_sum_sint: "(word_of_int (sum_list (map sint ws)) :: 'a::len word) = sum_list ws"
  by (induction ws) simp_all

lemma sint_sum_list:
  "sint (sum_list ws :: 'a::len word) = signed_take_bit (LENGTH('a) - 1) (sum_list (map sint ws))"
proof -
  have "sint (sum_list ws) = sint (word_of_int (sum_list (map sint ws)) :: 'a word)"
    by (simp only: word_of_int_sum_sint)
  then show ?thesis
    by (simp only: sint_sbintrunc')
qed

lemma sint_sumBytes:
  "sint (sumBytes k d segs) = signed_take_bit 63 (\<Sum>s\<leftarrow>segsOf k d segs. sint (DataLen s))"
  by (simp add: sumBytes_def sint_sum_list comp_def)

lemma sint_countPackets:
  "sint (countPackets k d segs) = signed_take_bit 63 (int (length (segsOf k d segs)))"
proof -
  have "countPackets k d segs = word_of_int (int (length (segsOf k d segs)))"
    by (simp only: countPackets_def of_int_of_nat_eq)
  then show ?thesis
    by (simp only: sint_sbintrunc') simp
qed

lemma windowEntry_None_iff: "(windowEntry k segs = None) = (k \<notin> Connection ` set segs)"
proof -
  have "(windowEntry k segs = None) = (filter (\<lambda>s. Connection s = k) segs = [])"
    by (simp add: windowEntry_def split: list.split)
  also have "\<dots> = (k \<notin> Connection ` set segs)"
    by (auto simp add: filter_empty_conv)
  finally show ?thesis .
qed

lemma drain_after_drain: "fst (GetUtilization (snd (GetUtilization c))) = Map.empty"
  by (simp add: GetUtilization_def)

lemma drained_window:
  "fst (GetUtilization (FetchAll (snd (GetUtilization c)) segs)) k = windowEntry k segs"
  by (simp add: GetUtilization_def FetchAll_absent)

lemma drained_new:
  "fst (GetUtilization (FetchAll NewSinker segs)) k = windowEntry k segs"
  by (simp add: GetUtilization_def NewSinker_def FetchAll_absent)

lemma windowEntry_fields:
  "windowEntry k segs = Some ci \<Longrightarrow>
    UploadBytes ci = sumBytes k DirectionUpload segs \<and>
    UploadPackets ci = countPackets k DirectionUpload segs \<and>
    DownloadBytes ci = sumBytes k DirectionDownload segs \<and>
    DownloadPackets ci = countPackets k DirectionDownload segs"
  by (auto simp add: windowEntry_def split: list.splits)

text \<open>
  Claim C1. Start from the sink as any drain leaves it (or as \<^verbatim>\<open>NewSinker\<close> builds it), fetch the
  segments \<open>segs\<close> in order and drain. The drained map has an entry for connection \<open>k\<close>
  exactly when some segment names \<open>k\<close>; the entry's upload bytes are the sum of
  \<^verbatim>\<open>DataLen\<close> over the upload segments of \<open>k\<close> and its upload packets their number, each
  segment counted once, and the same holds for download. The sums are those of Go's 64-bit
  \<^verbatim>\<open>int\<close>: read as integers they are the exact sum and count wrapped to 64 bits, and equal
  to them whenever these fit. A second drain with no fetch in between returns the empty map.
\<close>

theorem sink_window_tallies:
  fixes c :: Sinker and segs :: "Segment list" and k :: Connection and d :: Direction
  shows
  "(let u = fst (GetUtilization (FetchAll (snd (GetUtilization c)) segs));
        c' = snd (GetUtilization (FetchAll (snd (GetUtilization c)) segs))
    in (k \<in> dom u) = (k \<in> Connection ` set segs)
     \<and> (\<forall>ci. u k = Some ci \<longrightarrow>
           UploadBytes ci = sumBytes k DirectionUpload segs
         \<and> UploadPackets ci = countPackets k DirectionUpload segs
         \<and> DownloadBytes ci = sumBytes k DirectionDownload segs
         \<and> DownloadPackets ci = countPackets k DirectionDownload segs)
     \<and> fst (GetUtilization c') = Map.empty)
   \<and> fst (GetUtilization (FetchAll NewSinker segs)) k
       = fst (GetUtilization (FetchAll (snd (GetUtilization c)) segs)) k
   \<and> sint (sumBytes k d segs) = signed_take_bit 63 (\<Sum>s\<leftarrow>segsOf k d segs. sint (DataLen s))
   \<and> sint (countPackets k d segs) = signed_take_bit 63 (int (length (segsOf k d segs)))
   \<and> (- (2 ^ 63) \<le> (\<Sum>s\<leftarrow>segsOf k d segs. sint (DataLen s))
        \<and> (\<Sum>s\<leftarrow>segsOf k d segs. sint (DataLen s)) < 2 ^ 63 \<longrightarrow>
       sint (sumBytes k d segs) = (\<Sum>s\<leftarrow>segsOf k d segs. sint (DataLen s)))
   \<and> (length (segsOf k d segs) < 2 ^ 63 \<longrightarrow>
       sint (countPackets k d segs) = int (length (segsOf k d segs)))"
proof -
  let ?u = "fst (GetUtilization (FetchAll (snd (GetUtilization c)) segs))"
  have u: "?u k = windowEntry k segs"
    by (rule drained_window)
  have dom: "(k \<in> dom ?u) = (k \<in> Connection ` set segs)"
    using windowEntry_None_iff [of k segs] u by (auto simp add: dom_def)
  have fields: "\<forall>ci. ?u k = Some ci \<longrightarrow>
           UploadBytes ci = sumBytes k DirectionUpload segs
         \<and> UploadPackets ci = countPackets k DirectionUpload segs
         \<and> DownloadBytes ci = sumBytes k DirectionDownload segs
         \<and> DownloadPackets ci = countPackets k DirectionDownload segs"
    using windowEntry_fields [of k segs] u by simp
  have again: "fst (GetUtilization (snd (GetUtilization (FetchAll (snd (GetUtilization c)) segs))))
                 = Map.empty"
    by (rule drain_after_drain)
  have new: "fst (GetUtilization (FetchAll NewSinker segs)) k = ?u k"
    by (simp only: drained_new u)
  have bytes: "sint (sumBytes k d segs)
      = signed_take_bit 63 (\<Sum>s\<leftarrow>segsOf k d segs. sint (DataLen s))"
    by (rule sint_sumBytes)
  have packets: "sint (countPackets k d segs)
      = signed_take_bit 63 (int (length (segsOf k d segs)))"
    by (rule sint_countPackets)
  have bytes_fit: "- (2 ^ 63) \<le> (\<Sum>s\<leftarrow>segsOf k d segs. sint (DataLen s))
        \<and> (\<Sum>s\<leftarrow>segsOf k d segs. sint (DataLen s)) < 2 ^ 63 \<longrightarrow>
       sint (sumBytes k d segs) = (\<Sum>s\<leftarrow>segsOf k d segs. sint (DataLen s))"
    by (simp only: bytes signed_take_bit_int_eq_self_iff) blast
  have packets_fit: "length (segsOf k d segs) < 2 ^ 63 \<longrightarrow>
       sint (countPackets k d segs) = int (length (segsOf k d segs))"
  proof
    assume "length (segsOf k d segs) < 2 ^ 63"
    then have "int (length (segsOf k d segs)) < 2 ^ 63" by simp
    moreover have "- (2 ^ 63) \<le> int (length (segsOf k d segs))"
      by (rule order_trans [of _ 0]) simp_all
    ultimately show "sint (countPackets k d segs) = int (length (segsOf k d segs))"
      by (simp only: packets signed_take_bit_int_eq_self_iff)
  qed
  show ?thesis
    unfolding Let_def
    using dom fields again new bytes packets bytes_fit packets_fit by blast
qed

lemma scenario_segsOf_up:
  "segsOf scenarioConn DirectionUpload [scenarioSeg, scenarioSeg, scenarioSeg]
     = [scenarioSeg, scenarioSeg, scenarioSeg]"
  by (simp add: segsOf_def scenarioSeg_def)

theorem sink_window_tallies_witness:
  "(\<exists>ci. fst (GetUtilization (FetchAll (snd (GetUtilization NewSinker))
              [scenarioSeg, scenarioSeg, scenarioSeg])) scenarioConn = Some ci
         \<and> UploadBytes ci = 150 \<and> UploadPackets ci = 3
         \<and> DownloadBytes ci = 0 \<and> DownloadPackets ci = 0)
   \<and> fst (GetUtilization (snd (GetUtilization (FetchAll (snd (GetUtilization NewSinker))
              [scenarioSeg, scenarioSeg, scenarioSeg])))) = Map.empty
   \<and> (\<Sum>s\<leftarrow>segsOf scenarioConn DirectionUpload [scenarioSeg, scenarioSeg, scenarioSeg].
          sint (DataLen s)) = 150
   \<and> - (2 ^ 63) \<le> (150 :: int) \<and> (150 :: int) < 2 ^ 63
   \<and> sint (sumBytes scenarioConn DirectionUpload [scenarioSeg, scenarioSeg, scenarioSeg]) = 150
   \<and> length (segsOf scenarioConn DirectionUpload [scenarioSeg, scenarioSeg, scenarioSeg])
        < 2 ^ 63
   \<and> sint (countPackets scenarioConn DirectionUpload [scenarioSeg, scenarioSeg, scenarioSeg]) = 3"
proof -
  let ?segs = "[scenarioSeg, scenarioSeg, scenarioSeg]"
  note t = sink_window_tallies [of NewSinker ?segs scenarioConn DirectionUpload]
  have in_segs: "scenarioConn \<in> Connection ` set ?segs"
    by (simp add: scenarioSeg_def)
  have sum: "(\<Sum>s\<leftarrow>segsOf scenarioConn DirectionUpload ?segs. sint (DataLen s)) = 150"
    by (simp add: scenario_segsOf_up) (simp add: scenarioSeg_def)
  have len: "length (segsOf scenarioConn DirectionUpload ?segs) = 3"
    by (simp add: scenario_segsOf_up)
  have up: "sumBytes scenarioConn DirectionUpload ?segs = 150"
    by (simp add: sumBytes_def scenario_segsOf_up) (simp add: scenarioSeg_def)
  have upc: "countPackets scenarioConn DirectionUpload ?segs = 3"
    by (simp add: countPackets_def scenario_segsOf_up)
  have down: "segsOf scenarioConn DirectionDownload ?segs = []"
    by (simp add: segsOf_def scenarioSeg_def DirectionUpload_neq_Download)
  have downb: "sumBytes scenarioConn DirectionDownload ?segs = 0"
    by (simp add: sumBytes_def down)
  have downc: "countPackets scenarioConn DirectionDownload ?segs = 0"
    by (simp add: countPackets_def down)
  from t in_segs obtain ci where ci:
    "fst (GetUtilization (FetchAll (snd (GetUtilization NewSinker)) ?segs)) scenarioConn = Some ci"
    unfolding Let_def by blast
  from t have "\<forall>ci. fst (GetUtilization (FetchAll (snd (GetUtilization NewSinker)) ?segs))
          scenarioConn = Some ci \<longrightarrow>
           UploadBytes ci = sumBytes scenarioConn DirectionUpload ?segs
         \<and> UploadPackets ci = countPackets scenarioConn DirectionUpload ?segs
         \<and> DownloadBytes ci = sumBytes scenarioConn DirectionDownload ?segs
         \<and> DownloadPackets ci = countPackets scenarioConn DirectionDownload ?segs"
    unfolding Let_def by blast
  with ci have "UploadBytes ci = 150 \<and> UploadPackets ci = 3
         \<and> DownloadBytes ci = 0 \<and> DownloadPackets ci = 0"
    by (simp only: up upc downb downc)
  with ci have "\<exists>ci. fst (GetUtilization (FetchAll (snd (GetUtilization NewSinker)) ?segs))
        scenarioConn = Some ci
         \<and> UploadBytes ci = 150 \<and> UploadPackets ci = 3
         \<and> DownloadBytes ci = 0 \<and> DownloadPackets ci = 0"
    by blast
  moreover from t have "fst (GetUtilization (snd (GetUtilization (FetchAll
        (snd (GetUtilization NewSinker)) ?segs)))) = Map.empty"
    unfolding Let_def by blast
  moreover from t sum have
    "sint (sumBytes scenarioConn DirectionUpload ?segs) = 150"
    by simp
  moreover from t len have
    "sint (countPackets scenarioConn DirectionUpload ?segs) = 3"
    by simp
  ultimately show ?thesis
    using sum len by simp
qed

text \<open>
  Claim C9. Once a connection has an entry, fetching a segment for it keeps the entry's
  interface and process and changes the counters only, whatever interface and process the
  later segment carries; a segment for another connection leaves the entry as it is; and
  the entry made at the first insertion carries the interface and process of that segment.
  The same holds along any run of fetches.
\<close>

theorem fetch_keeps_first_interface_and_process:
  "(utilization c (Connection seg) = Some ci \<longrightarrow>
      (\<exists>ci'. utilization (Fetch c seg) (Connection seg) = Some ci'
         \<and> Interface ci' = Interface ci \<and> Process ci' = Process ci
         \<and> ci' = ci\<lparr>UploadPackets := UploadPackets ci', DownloadPackets := DownloadPackets ci',
                      UploadBytes := UploadBytes ci', DownloadBytes := DownloadBytes ci'\<rparr>))
   \<and> (Connection seg \<noteq> k \<longrightarrow> utilization (Fetch c seg) k = utilization c k)
   \<and> (utilization c (Connection seg) = None \<longrightarrow>
      (\<exists>ci'. utilization (Fetch c seg) (Connection seg) = Some ci'
         \<and> Interface ci' = SegInterface seg \<and> Process ci' = SegProcess seg))
   \<and> (utilization c k = Some ci \<longrightarrow>
      (\<exists>ci'. utilization (FetchAll c segs) k = Some ci'
         \<and> Interface ci' = Interface ci \<and> Process ci' = Process ci))"
proof -
  have one: "utilization c (Connection seg) = Some ci \<longrightarrow>
      (\<exists>ci'. utilization (Fetch c seg) (Connection seg) = Some ci'
         \<and> Interface ci' = Interface ci \<and> Process ci' = Process ci
         \<and> ci' = ci\<lparr>UploadPackets := UploadPackets ci', DownloadPackets := DownloadPackets ci',
                      UploadBytes := UploadBytes ci', DownloadBytes := DownloadBytes ci'\<rparr>)"
    by (simp add: Fetch_present addTallies_def)
  have other: "Connection seg \<noteq> k \<longrightarrow> utilization (Fetch c seg) k = utilization c k"
    by (simp add: Fetch_other)
  have first: "utilization c (Connection seg) = None \<longrightarrow>
      (\<exists>ci'. utilization (Fetch c seg) (Connection seg) = Some ci'
         \<and> Interface ci' = SegInterface seg \<and> Process ci' = SegProcess seg)"
    by (simp add: Fetch_absent windowEntry_def)
  have run: "utilization c k = Some ci \<longrightarrow>
      (\<exists>ci'. utilization (FetchAll c segs) k = Some ci'
         \<and> Interface ci' = Interface ci \<and> Process ci' = Process ci)"
    by (simp add: FetchAll_present addTallies_def)
  from one other first run show ?thesis by blast
qed

theorem fetch_keeps_first_interface_and_process_witness:
  "utilization NewSinker (Connection scenarioSeg) = None
   \<and> (\<exists>ci. utilization (Fetch NewSinker scenarioSeg) (Connection scenarioLaterSeg) = Some ci
        \<and> Interface ci = ''eth0'' \<and> Process ci = Some \<lparr>Pid = 42, Name = ''curl''\<rparr>)
   \<and> (\<exists>ci'. utilization (Fetch (Fetch NewSinker scenarioSeg) scenarioLaterSeg)
               (Connection scenarioLaterSeg) = Some ci'
        \<and> Interface ci' = ''eth0'' \<and> Process ci' = Some \<lparr>Pid = 42, Name = ''curl''\<rparr>)
   \<and> (\<exists>ci'. utilization (FetchAll (Fetch NewSinker scenarioSeg)
               [scenarioLaterSeg, scenarioLaterSeg]) scenarioConn = Some ci'
        \<and> Interface ci' = ''eth0'' \<and> Process ci' = Some \<lparr>Pid = 42, Name = ''curl''\<rparr>)
   \<and> Connection scenarioLaterSeg \<noteq> scenarioConn\<lparr>Remote := \<lparr>RemoteIP = ''1.1.1.1'', RemotePort = 80\<rparr>\<rparr>
   \<and> utilization (Fetch (Fetch NewSinker scenarioSeg) scenarioLaterSeg)
         (scenarioConn\<lparr>Remote := \<lparr>RemoteIP = ''1.1.1.1'', RemotePort = 80\<rparr>\<rparr>) = None"
proof -
  let ?curl = "Some \<lparr>Pid = 42, Name = ''curl''\<rparr>"
  let ?c1 = "Fetch NewSinker scenarioSeg"
  let ?k' = "scenarioConn\<lparr>Remote := \<lparr>RemoteIP = ''1.1.1.1'', RemotePort = 80\<rparr>\<rparr>"
  have conn: "Connection scenarioLaterSeg = scenarioConn" "Connection scenarioSeg = scenarioConn"
    by (simp_all add: scenarioLaterSeg_def scenarioSeg_def)
  have empty: "utilization NewSinker (Connection scenarioSeg) = None"
    by (simp add: NewSinker_def)
  with fetch_keeps_first_interface_and_process [of NewSinker scenarioSeg _ scenarioConn "[]"]
  obtain ci where ci: "utilization ?c1 scenarioConn = Some ci"
    "Interface ci = ''eth0''" "Process ci = ?curl"
    by (auto simp add: conn) (simp add: scenarioSeg_def)
  note t = fetch_keeps_first_interface_and_process
    [of ?c1 scenarioLaterSeg ci scenarioConn "[scenarioLaterSeg, scenarioLaterSeg]"]
  from t ci have one: "\<exists>ci'. utilization (Fetch ?c1 scenarioLaterSeg)
               (Connection scenarioLaterSeg) = Some ci'
        \<and> Interface ci' = ''eth0'' \<and> Process ci' = ?curl"
    by (simp add: conn) blast
  from t ci have run: "\<exists>ci'. utilization (FetchAll ?c1 [scenarioLaterSeg, scenarioLaterSeg])
        scenarioConn = Some ci' \<and> Interface ci' = ''eth0'' \<and> Process ci' = ?curl"
    by (simp add: conn)
  have neq: "Connection scenarioLaterSeg \<noteq> ?k'"
    by (simp add: scenarioLaterSeg_def scenarioConn_def)
  have neq0: "Connection scenarioSeg \<noteq> ?k'"
    by (simp add: scenarioSeg_def scenarioConn_def)
  from fetch_keeps_first_interface_and_process [of ?c1 scenarioLaterSeg ci ?k' "[]"] neq
  have "utilization (Fetch ?c1 scenarioLaterSeg) ?k' = utilization ?c1 ?k'"
    by blast
  also from fetch_keeps_first_interface_and_process [of NewSinker scenarioSeg ci ?k' "[]"] neq0
  have "utilization ?c1 ?k' = utilization NewSinker ?k'"
    by blast
  finally have other: "utilization (Fetch ?c1 scenarioLaterSeg) ?k' = None"
    by (simp add: NewSinker_def)
  from empty ci one run neq other show ?thesis
    by (simp add: conn)
qed

section \<open>Properties of the process monitor\<close>

lemma firstHit_ladder: "firstHit (socketMap pm) (ladder socket) = GetProcess pm socket"
  by (simp add: ladder_def GetProcess_def split: option.split)

lemma firstHit_None: "(firstHit m ks = None) = (\<forall>k\<in>set ks. m k = None)"
  by (induction ks) (auto split: option.splits)

text \<open>
  Claim C3. \<^verbatim>\<open>GetProcess\<close> returns the first hit among the exact socket and the same
  socket with the address replaced by \<^verbatim>\<open>*\<close>, \<^verbatim>\<open>0.0.0.0\<close> and \<^verbatim>\<open>::\<close>, in this order:
  each step answers only when every earlier step missed, and the result is nil exactly
  when all four keys are missing.
\<close>

theorem GetProcess_fallback_ladder:
  "GetProcess pm socket = firstHit (socketMap pm) (ladder socket)
   \<and> ladder socket = [socket, socket\<lparr>LocalIP := ''*''\<rparr>, socket\<lparr>LocalIP := ''0.0.0.0''\<rparr>,
                       socket\<lparr>LocalIP := ''::''\<rparr>]
   \<and> (socketMap pm socket = Some p \<longrightarrow> GetProcess pm socket = Some p)
   \<and> (socketMap pm socket = None \<and> socketMap pm (socket\<lparr>LocalIP := ''*''\<rparr>) = Some p \<longrightarrow>
        GetProcess pm socket = Some p)
   \<and> (socketMap pm socket = None \<and> socketMap pm (socket\<lparr>LocalIP := ''*''\<rparr>) = None
        \<and> socketMap pm (socket\<lparr>LocalIP := ''0.0.0.0''\<rparr>) = Some p \<longrightarrow>
        GetProcess pm socket = Some p)
   \<and> (socketMap pm socket = None \<and> socketMap pm (socket\<lparr>LocalIP := ''*''\<rparr>) = None
        \<and> socketMap pm (socket\<lparr>LocalIP := ''0.0.0.0''\<rparr>) = None
        \<and> socketMap pm (socket\<lparr>LocalIP := ''::''\<rparr>) = Some p \<longrightarrow>
        GetProcess pm socket = Some p)
   \<and> ((GetProcess pm socket = None) = (\<forall>k\<in>set (ladder socket). socketMap pm k = None))"
proof -
  have spec: "GetProcess pm socket = firstHit (socketMap pm) (ladder socket)"
    by (simp only: firstHit_ladder)
  have none: "(GetProcess pm socket = None) = (\<forall>k\<in>set (ladder socket). socketMap pm k = None)"
    by (simp only: spec firstHit_None)
  show ?thesis
    using spec none by (simp add: ladder_def GetProcess_def)
qed

theorem GetProcess_fallback_ladder_witness:
  "socketMap nginxMonitor \<lparr>LocalIP = ''192.168.1.5'', LocalPort = 8080, LocalProtocol = ProtoTCP\<rparr>
     = None
   \<and> socketMap nginxMonitor \<lparr>LocalIP = ''*'', LocalPort = 8080, LocalProtocol = ProtoTCP\<rparr> = None
   \<and> socketMap nginxMonitor \<lparr>LocalIP = ''0.0.0.0'', LocalPort = 8080, LocalProtocol = ProtoTCP\<rparr>
     = Some \<lparr>Pid = 7, Name = ''nginx''\<rparr>
   \<and> GetProcess nginxMonitor
       \<lparr>LocalIP = ''192.168.1.5'', LocalPort = 8080, LocalProtocol = ProtoTCP\<rparr>
     = Some \<lparr>Pid = 7, Name = ''nginx''\<rparr>
   \<and> GetProcess nginxMonitor
       \<lparr>LocalIP = ''192.168.1.5'', LocalPort = 9090, LocalProtocol = ProtoTCP\<rparr> = None"
proof -
  let ?s = "\<lparr>LocalIP = ''192.168.1.5'', LocalPort = 8080, LocalProtocol = ProtoTCP\<rparr>"
  let ?t = "\<lparr>LocalIP = ''192.168.1.5'', LocalPort = 9090, LocalProtocol = ProtoTCP\<rparr>"
  let ?nginx = "\<lparr>Pid = 7, Name = ''nginx''\<rparr>"
  have exact: "socketMap nginxMonitor ?s = None"
    by (simp add: nginxMonitor_def)
  have star: "socketMap nginxMonitor (?s\<lparr>LocalIP := ''*''\<rparr>) = None"
    by (simp add: nginxMonitor_def)
  have any4: "socketMap nginxMonitor (?s\<lparr>LocalIP := ''0.0.0.0''\<rparr>) = Some ?nginx"
    by (simp add: nginxMonitor_def)
  from GetProcess_fallback_ladder [of nginxMonitor ?s ?nginx] exact star any4
  have hit: "GetProcess nginxMonitor ?s = Some ?nginx"
    by blast
  have "\<forall>k\<in>set (ladder ?t). socketMap nginxMonitor k = None"
    by (simp add: ladder_def nginxMonitor_def)
  with GetProcess_fallback_ladder [of nginxMonitor ?t ?nginx]
  have miss: "GetProcess nginxMonitor ?t = None"
    by blast
  from exact star any4 hit miss show ?thesis
    by simp
qed

section \<open>Properties of the packet decoder\<close>

lemma Proto_distinct:
  "ProtoTCP \<noteq> ProtoUDP" "ProtoUDP \<noteq> ProtoTCP" "ProtoTCP \<noteq> ''''" "ProtoUDP \<noteq> ''''"
  by (simp_all add: ProtoTCP_def ProtoUDP_def)

lemma Direction_distinct:
  "DirectionUpload \<noteq> DirectionDownload" "DirectionDownload \<noteq> DirectionUpload"
  by (simp_all add: DirectionUpload_def DirectionDownload_def)

text \<open>
  The segment \<^verbatim>\<open>parsePacket\<close> builds from an IP layer followed by a TCP or UDP layer, the
  list \<^verbatim>\<open>listen\<close> hands over for a decoded packet.
\<close>

lemma parsePacket_two_layers:
  assumes ip: "ip = IPv4 src dst \<or> ip = IPv6 src dst"
    and l4: "l4 = TCP sp dp hdr pl \<and> p = ProtoTCP \<or> l4 = UDP sp dp hdr pl \<and> p = ProtoUDP"
  shows "parsePacket c ph [ip, l4] =
    Some \<lparr>SegInterface = device ph,
          DataLen = of_nat (length hdr) + of_nat (length pl),
          Connection =
            (if bindIPs c src then
               \<lparr>Local = \<lparr>LocalIP = src, LocalPort = sp, LocalProtocol = p\<rparr>,
                Remote = \<lparr>RemoteIP = (if p = ProtoTCP \<and> \<not> disableDNSResolve c
                                       then lookup c dst else dst),
                          RemotePort = dp\<rparr>\<rparr>
             else
               \<lparr>Local = \<lparr>LocalIP = dst, LocalPort = dp, LocalProtocol = p\<rparr>,
                Remote = \<lparr>RemoteIP = (if p = ProtoTCP \<and> \<not> disableDNSResolve c
                                       then lookup c src else src),
                          RemotePort = sp\<rparr>\<rparr>),
          Direction = (if bindIPs c src then DirectionUpload else DirectionDownload),
          SegProcess =
            enrich c (if bindIPs c src then \<lparr>LocalIP = src, LocalPort = sp, LocalProtocol = p\<rparr>
                      else \<lparr>LocalIP = dst, LocalPort = dp, LocalProtocol = p\<rparr>)\<rparr>"
  using ip l4
  by (auto simp add: parsePacket_def parseVars0_def Let_def Proto_distinct Direction_distinct)

text \<open>
  \<^verbatim>\<open>listen\<close> appends the IPv6 layer after the IPv4 layer when the IPv4 decoder accepted the
  bytes with an empty payload and the IPv6 decoder accepted them too. The loop of
  \<^verbatim>\<open>parsePacket\<close> overwrites the addresses at every IP layer and never sets the direction
  back to download: on any list the direction is upload exactly when the source of some
  IP layer is bound, and on the list of two IP layers the addresses are those of the IPv6
  layer.
\<close>

lemma foldl_parseLayer_direction:
  "(direction (foldl (parseLayer c) v decoded) = DirectionUpload)
     = (direction v = DirectionUpload
        \<or> (\<exists>src dst. (IPv4 src dst \<in> set decoded \<or> IPv6 src dst \<in> set decoded)
              \<and> bindIPs c src))"
proof (induction decoded arbitrary: v)
  case Nil
  then show ?case by simp
next
  case (Cons lyr decoded)
  show ?case
    by (cases lyr) (auto simp add: Cons.IH)
qed

lemma parsePacket_direction_any_list:
  "parsePacket c ph decoded = Some seg \<Longrightarrow>
   (Direction seg = DirectionUpload)
     = (\<exists>src dst. (IPv4 src dst \<in> set decoded \<or> IPv6 src dst \<in> set decoded)
          \<and> bindIPs c src)"
  using foldl_parseLayer_direction [of c parseVars0 decoded]
  by (auto simp add: parsePacket_def Let_def parseVars0_def Direction_distinct
      split: if_splits)

lemma parsePacket_two_ip_layers:
  "map_option (\<lambda>seg. (Direction seg = DirectionUpload, LocalIP (Local (Connection seg))))
     (parsePacket c ph [IPv4 src4 dst4, IPv6 src6 dst6, TCP sp dp hdr pl])
     = Some (bindIPs c src4 \<or> bindIPs c src6,
             if bindIPs c src4 \<or> bindIPs c src6 then src6 else dst6)"
  by (simp add: parsePacket_def parseVars0_def Let_def Proto_distinct Direction_distinct)

lemma sint_of_nat_small:
  assumes "n < 2 ^ 63"
  shows "sint (of_nat n :: go_int) = int n"
proof -
  have "(of_nat n :: go_int) = word_of_int (int n)"
    by (simp only: of_int_of_nat_eq)
  then have "sint (of_nat n :: go_int) = signed_take_bit 63 (int n)"
    by (simp only: sint_sbintrunc') simp
  moreover have "- (2 ^ 63) \<le> int n"
    by (rule order_trans [of _ 0]) simp_all
  moreover from assms have "int n < 2 ^ 63" by simp
  ultimately show ?thesis
    by (simp only: signed_take_bit_int_eq_self_iff)
qed

text \<open>
  Claim C2, amended. For every decoded packet whose list of layers is one IP layer (IPv4
  or IPv6) followed by the TCP or UDP layer, a segment is emitted. Its direction is upload
  exactly when the source address is in the bound set and download otherwise. On upload
  the local socket is the source address, source port and protocol and the remote port is
  the destination port; on download the two sides are swapped. The remote address is the
  raw address of the remote side, except that for TCP with DNS resolution enabled it is
  the lookup result of that address. \<^verbatim>\<open>DataLen\<close> is the length of the header bytes plus
  the length of the payload. Nothing is said here about a list with two IP layers.
\<close>

theorem parsePacket_segment:
  assumes "ip = IPv4 src dst \<or> ip = IPv6 src dst"
    and "l4 = TCP sp dp hdr pl \<and> p = ProtoTCP \<or> l4 = UDP sp dp hdr pl \<and> p = ProtoUDP"
  shows "\<exists>seg. parsePacket c ph [ip, l4] = Some seg
    \<and> (Direction seg = DirectionUpload) = bindIPs c src
    \<and> (Direction seg = DirectionDownload) = (\<not> bindIPs c src)
    \<and> DataLen seg = of_nat (length hdr + length pl)
    \<and> (length hdr + length pl < 2 ^ 63 \<longrightarrow> sint (DataLen seg) = int (length hdr + length pl))
    \<and> (bindIPs c src \<longrightarrow>
          Local (Connection seg) = \<lparr>LocalIP = src, LocalPort = sp, LocalProtocol = p\<rparr>
        \<and> RemotePort (Remote (Connection seg)) = dp
        \<and> RemoteIP (Remote (Connection seg))
            = (if p = ProtoTCP \<and> \<not> disableDNSResolve c then lookup c dst else dst))
    \<and> (\<not> bindIPs c src \<longrightarrow>
          Local (Connection seg) = \<lparr>LocalIP = dst, LocalPort = dp, LocalProtocol = p\<rparr>
        \<and> RemotePort (Remote (Connection seg)) = sp
        \<and> RemoteIP (Remote (Connection seg))
            = (if p = ProtoTCP \<and> \<not> disableDNSResolve c then lookup c src else src))"
proof -
  note seg = parsePacket_two_layers [OF assms, of c ph]
  show ?thesis
  proof (cases "bindIPs c src")
    case True
    with seg show ?thesis
      by (simp add: Direction_distinct sint_of_nat_small flip: of_nat_add)
  next
    case False
    with seg show ?thesis
      by (simp add: Direction_distinct sint_of_nat_small flip: of_nat_add)
  qed
qed

lemma scenario_lengths:
  "length scenarioHeader = 20" "length scenarioPayload = 100"
  by (simp_all add: scenarioHeader_def scenarioPayload_def)

lemma scenario_bound:
  "bindIPs (scenarioClient noDNS) ''10.0.0.2''" "\<not> bindIPs (scenarioClient noDNS) ''1.1.1.1''"
  by (simp_all add: scenarioClient_def)

theorem parsePacket_segment_witness:
  "bindIPs (scenarioClient True) ''10.0.0.2''
   \<and> length scenarioHeader + length scenarioPayload < 2 ^ 63
   \<and> (\<exists>seg. parsePacket (scenarioClient True) scenarioHandler
              [IPv4 ''10.0.0.2'' ''1.1.1.1'', TCP 50000 443 scenarioHeader scenarioPayload]
            = Some seg
        \<and> Direction seg = DirectionUpload
        \<and> DataLen seg = 120 \<and> sint (DataLen seg) = 120
        \<and> Local (Connection seg)
            = \<lparr>LocalIP = ''10.0.0.2'', LocalPort = 50000, LocalProtocol = ProtoTCP\<rparr>
        \<and> Remote (Connection seg) = \<lparr>RemoteIP = ''1.1.1.1'', RemotePort = 443\<rparr>)
   \<and> \<not> bindIPs (scenarioClient True) ''1.1.1.1''
   \<and> (\<exists>seg. parsePacket (scenarioClient True) scenarioHandler
              [IPv6 ''1.1.1.1'' ''10.0.0.2'', UDP 443 50000 scenarioHeader scenarioPayload]
            = Some seg
        \<and> Direction seg = DirectionDownload
        \<and> Local (Connection seg)
            = \<lparr>LocalIP = ''10.0.0.2'', LocalPort = 50000, LocalProtocol = ProtoUDP\<rparr>
        \<and> Remote (Connection seg) = \<lparr>RemoteIP = ''1.1.1.1'', RemotePort = 443\<rparr>)"
proof -
  let ?c = "scenarioClient True"
  have len: "length scenarioHeader + length scenarioPayload < 2 ^ 63"
    by (simp add: scenario_lengths)
  have noDNS: "disableDNSResolve ?c"
    by (simp add: scenarioClient_def)
  from parsePacket_segment [of "IPv4 ''10.0.0.2'' ''1.1.1.1''" "''10.0.0.2''" "''1.1.1.1''"
      "TCP 50000 443 scenarioHeader scenarioPayload" 50000 443 scenarioHeader scenarioPayload
      ProtoTCP ?c scenarioHandler]
  obtain seg where seg:
    "parsePacket ?c scenarioHandler
       [IPv4 ''10.0.0.2'' ''1.1.1.1'', TCP 50000 443 scenarioHeader scenarioPayload] = Some seg"
    "Direction seg = DirectionUpload" "DataLen seg = 120" "sint (DataLen seg) = 120"
    "Local (Connection seg)
       = \<lparr>LocalIP = ''10.0.0.2'', LocalPort = 50000, LocalProtocol = ProtoTCP\<rparr>"
    "RemotePort (Remote (Connection seg)) = 443" "RemoteIP (Remote (Connection seg)) = ''1.1.1.1''"
    using scenario_bound [of True] noDNS by (auto simp add: scenario_lengths)
  from parsePacket_segment [of "IPv6 ''1.1.1.1'' ''10.0.0.2''" "''1.1.1.1''" "''10.0.0.2''"
      "UDP 443 50000 scenarioHeader scenarioPayload" 443 50000 scenarioHeader scenarioPayload
      ProtoUDP ?c scenarioHandler]
  obtain seg' where seg':
    "parsePacket ?c scenarioHandler
       [IPv6 ''1.1.1.1'' ''10.0.0.2'', UDP 443 50000 scenarioHeader scenarioPayload] = Some seg'"
    "Direction seg' = DirectionDownload"
    "Local (Connection seg')
       = \<lparr>LocalIP = ''10.0.0.2'', LocalPort = 50000, LocalProtocol = ProtoUDP\<rparr>"
    "RemotePort (Remote (Connection seg')) = 443"
    "RemoteIP (Remote (Connection seg')) = ''1.1.1.1''"
    using scenario_bound [of True] noDNS by (auto simp add: scenario_lengths)
  have r: "Remote (Connection seg) = \<lparr>RemoteIP = ''1.1.1.1'', RemotePort = 443\<rparr>"
    "Remote (Connection seg') = \<lparr>RemoteIP = ''1.1.1.1'', RemotePort = 443\<rparr>"
    using seg(6,7) seg'(4,5) by simp_all
  from seg seg' r len scenario_bound [of True] show ?thesis
    by blast
qed

lemma scenario_two_ip_layers:
  "parsePacket (scenarioClient True) scenarioHandler
     [IPv4 ''10.0.0.2'' ''1.1.1.1'', IPv6 ''2001:db8::1'' ''2001:db8::2'',
      TCP 50000 443 scenarioHeader scenarioPayload]
   = Some \<lparr>SegInterface = ''eth0'', DataLen = 120,
       Connection =
         \<lparr>Local = \<lparr>LocalIP = ''2001:db8::1'', LocalPort = 50000, LocalProtocol = ProtoTCP\<rparr>,
          Remote = \<lparr>RemoteIP = ''2001:db8::2'', RemotePort = 443\<rparr>\<rparr>,
       Direction = DirectionUpload, SegProcess = None\<rparr>"
  by (simp add: parsePacket_def parseVars0_def Let_def Proto_distinct Direction_distinct
      scenarioClient_def scenarioHandler_def scenarioHeader_def scenarioPayload_def enrich_def
      scenarioMonitor_def GetProcess_def)

text \<open>
  Claim C2 as stated fails in two places. Where DNS resolution is enabled, the TCP upload
  of scenario 2 leaves with the remote address \<^verbatim>\<open>one.one.one.one\<close>, not the destination
  address \<^verbatim>\<open>1.1.1.1\<close> of the packet. And where the decoded list holds an IPv4 layer
  followed by an IPv6 layer, the addresses are those of the IPv6 layer while the direction
  still comes from the IPv4 layer: the segment is an upload although its source address
  \<^verbatim>\<open>2001:db8::1\<close> is not in the bound set.
\<close>

theorem parsePacket_remote_counterexample:
  "map_option (Remote \<circ> Connection)
     (parsePacket (scenarioClient False) scenarioHandler
        [IPv4 ''10.0.0.2'' ''1.1.1.1'', TCP 50000 443 scenarioHeader scenarioPayload])
     = Some \<lparr>RemoteIP = ''one.one.one.one'', RemotePort = 443\<rparr>
   \<and> map_option (Remote \<circ> Connection)
     (parsePacket (scenarioClient False) scenarioHandler
        [IPv4 ''10.0.0.2'' ''1.1.1.1'', TCP 50000 443 scenarioHeader scenarioPayload])
     \<noteq> Some \<lparr>RemoteIP = ''1.1.1.1'', RemotePort = 443\<rparr>
   \<and> \<not> bindIPs (scenarioClient True) ''2001:db8::1''
   \<and> map_option (LocalIP \<circ> Local \<circ> Connection)
     (parsePacket (scenarioClient True) scenarioHandler
        [IPv4 ''10.0.0.2'' ''1.1.1.1'', IPv6 ''2001:db8::1'' ''2001:db8::2'',
         TCP 50000 443 scenarioHeader scenarioPayload])
     = Some ''2001:db8::1''
   \<and> map_option Direction
     (parsePacket (scenarioClient True) scenarioHandler
        [IPv4 ''10.0.0.2'' ''1.1.1.1'', IPv6 ''2001:db8::1'' ''2001:db8::2'',
         TCP 50000 443 scenarioHeader scenarioPayload])
     = Some DirectionUpload"
proof -
  have unbound: "\<not> bindIPs (scenarioClient True) ''2001:db8::1''"
    by (simp add: scenarioClient_def)
  have dns: "\<not> disableDNSResolve (scenarioClient False)"
    "lookup (scenarioClient False) ''1.1.1.1'' = ''one.one.one.one''"
    by (simp_all add: scenarioClient_def scenarioLookup_def)
  have "parsePacket (scenarioClient False) scenarioHandler
        [IPv4 ''10.0.0.2'' ''1.1.1.1'', TCP 50000 443 scenarioHeader scenarioPayload]
      = Some \<lparr>SegInterface = ''eth0'', DataLen = 120,
          Connection =
            \<lparr>Local = \<lparr>LocalIP = ''10.0.0.2'', LocalPort = 50000, LocalProtocol = ProtoTCP\<rparr>,
             Remote = \<lparr>RemoteIP = ''one.one.one.one'', RemotePort = 443\<rparr>\<rparr>,
          Direction = DirectionUpload,
          SegProcess = Some \<lparr>Pid = 42, Name = ''curl''\<rparr>\<rparr>"
    using parsePacket_two_layers [of "IPv4 ''10.0.0.2'' ''1.1.1.1''" "''10.0.0.2''" "''1.1.1.1''"
      "TCP 50000 443 scenarioHeader scenarioPayload" 50000 443 scenarioHeader scenarioPayload
      ProtoTCP "scenarioClient False" scenarioHandler] scenario_bound [of False] dns
    by (simp add: scenario_lengths scenarioHandler_def)
      (simp add: enrich_def scenarioClient_def scenarioMonitor_def GetProcess_def)
  with unbound show ?thesis
    by (simp add: scenario_two_ip_layers)
qed

text \<open>
  Claim C4. The remote address of the emitted segment is the lookup result of the raw
  remote address (the destination on upload, the source on download) exactly when the
  protocol is TCP and DNS resolution is enabled; for UDP, and whenever DNS resolution is
  disabled, it is the raw address. The resolver, as the specification describes it,
  returns its input when it has no name for it, so a miss leaves the raw address too.
\<close>

theorem parsePacket_dns_substitution:
  assumes "ip = IPv4 src dst \<or> ip = IPv6 src dst"
    and "l4 = TCP sp dp hdr pl \<and> p = ProtoTCP \<or> l4 = UDP sp dp hdr pl \<and> p = ProtoUDP"
    and "raw = (if bindIPs c src then dst else src)"
  shows "\<exists>seg. parsePacket c ph [ip, l4] = Some seg
    \<and> LocalProtocol (Local (Connection seg)) = p
    \<and> (p = ProtoTCP \<and> \<not> disableDNSResolve c \<longrightarrow>
          RemoteIP (Remote (Connection seg)) = lookup c raw)
    \<and> (p = ProtoUDP \<longrightarrow> RemoteIP (Remote (Connection seg)) = raw)
    \<and> (disableDNSResolve c \<longrightarrow> RemoteIP (Remote (Connection seg)) = raw)
    \<and> (table raw = None \<longrightarrow> Lookup table raw = raw)
    \<and> (lookup c = Lookup table \<and> table raw = None \<longrightarrow>
          RemoteIP (Remote (Connection seg)) = raw)"
proof -
  note seg = parsePacket_two_layers [OF assms(1,2), of c ph]
  from assms(2) have p: "p = ProtoTCP \<or> p = ProtoUDP" by blast
  show ?thesis
  proof (cases "bindIPs c src")
    case True
    with seg assms(3) p show ?thesis
      by (auto simp add: Proto_distinct Lookup_def)
  next
    case False
    with seg assms(3) p show ?thesis
      by (auto simp add: Proto_distinct Lookup_def)
  qed
qed

lemma scenario_dns:
  "disableDNSResolve (scenarioClient noDNS) = noDNS"
  "lookup (scenarioClient noDNS) ''1.1.1.1'' = ''one.one.one.one''"
  "disableDNSResolve tableClient = False"
  "bindIPs tableClient ''10.0.0.2''"
  "lookup tableClient = Lookup scenarioTable"
  "scenarioTable ''8.8.8.8'' = None"
  by (simp_all add: scenarioClient_def tableClient_def scenarioLookup_def scenarioTable_def)

theorem parsePacket_dns_substitution_witness:
  "(\<exists>seg. parsePacket (scenarioClient False) scenarioHandler
            [IPv4 ''10.0.0.2'' ''1.1.1.1'', TCP 50000 443 scenarioHeader scenarioPayload]
          = Some seg
      \<and> \<not> disableDNSResolve (scenarioClient False)
      \<and> RemoteIP (Remote (Connection seg)) = ''one.one.one.one'')
   \<and> (\<exists>seg. parsePacket (scenarioClient False) scenarioHandler
            [IPv4 ''10.0.0.2'' ''1.1.1.1'', UDP 50000 443 scenarioHeader scenarioPayload]
          = Some seg
      \<and> RemoteIP (Remote (Connection seg)) = ''1.1.1.1'')
   \<and> (\<exists>seg. parsePacket (scenarioClient True) scenarioHandler
            [IPv4 ''10.0.0.2'' ''1.1.1.1'', TCP 50000 443 scenarioHeader scenarioPayload]
          = Some seg
      \<and> disableDNSResolve (scenarioClient True)
      \<and> RemoteIP (Remote (Connection seg)) = ''1.1.1.1'')
   \<and> (\<exists>seg. parsePacket tableClient scenarioHandler
            [IPv4 ''10.0.0.2'' ''8.8.8.8'', TCP 50000 443 scenarioHeader scenarioPayload]
          = Some seg
      \<and> lookup tableClient = Lookup scenarioTable
      \<and> scenarioTable ''8.8.8.8'' = None
      \<and> Lookup scenarioTable ''8.8.8.8'' = ''8.8.8.8''
      \<and> RemoteIP (Remote (Connection seg)) = ''8.8.8.8'')"
proof -
  have tcp_on: "\<exists>seg. parsePacket (scenarioClient False) scenarioHandler
            [IPv4 ''10.0.0.2'' ''1.1.1.1'', TCP 50000 443 scenarioHeader scenarioPayload]
          = Some seg
      \<and> \<not> disableDNSResolve (scenarioClient False)
      \<and> RemoteIP (Remote (Connection seg)) = ''one.one.one.one''"
    using parsePacket_dns_substitution [of "IPv4 ''10.0.0.2'' ''1.1.1.1''" "''10.0.0.2''"
      "''1.1.1.1''" "TCP 50000 443 scenarioHeader scenarioPayload" 50000 443 scenarioHeader
      scenarioPayload ProtoTCP "''1.1.1.1''" "scenarioClient False" scenarioHandler scenarioTable]
      scenario_bound [of False]
    by (auto simp add: scenario_dns)
  have udp: "\<exists>seg. parsePacket (scenarioClient False) scenarioHandler
            [IPv4 ''10.0.0.2'' ''1.1.1.1'', UDP 50000 443 scenarioHeader scenarioPayload]
          = Some seg
      \<and> RemoteIP (Remote (Connection seg)) = ''1.1.1.1''"
    using parsePacket_dns_substitution [of "IPv4 ''10.0.0.2'' ''1.1.1.1''" "''10.0.0.2''"
      "''1.1.1.1''" "UDP 50000 443 scenarioHeader scenarioPayload" 50000 443 scenarioHeader
      scenarioPayload ProtoUDP "''1.1.1.1''" "scenarioClient False" scenarioHandler scenarioTable]
      scenario_bound [of False]
    by auto
  have tcp_off: "\<exists>seg. parsePacket (scenarioClient True) scenarioHandler
            [IPv4 ''10.0.0.2'' ''1.1.1.1'', TCP 50000 443 scenarioHeader scenarioPayload]
          = Some seg
      \<and> disableDNSResolve (scenarioClient True)
      \<and> RemoteIP (Remote (Connection seg)) = ''1.1.1.1''"
    using parsePacket_dns_substitution [of "IPv4 ''10.0.0.2'' ''1.1.1.1''" "''10.0.0.2''"
      "''1.1.1.1''" "TCP 50000 443 scenarioHeader scenarioPayload" 50000 443 scenarioHeader
      scenarioPayload ProtoTCP "''1.1.1.1''" "scenarioClient True" scenarioHandler scenarioTable]
      scenario_bound [of True]
    by (auto simp add: scenario_dns)
  have miss: "\<exists>seg. parsePacket tableClient scenarioHandler
            [IPv4 ''10.0.0.2'' ''8.8.8.8'', TCP 50000 443 scenarioHeader scenarioPayload]
          = Some seg
      \<and> lookup tableClient = Lookup scenarioTable
      \<and> scenarioTable ''8.8.8.8'' = None
      \<and> Lookup scenarioTable ''8.8.8.8'' = ''8.8.8.8''
      \<and> RemoteIP (Remote (Connection seg)) = ''8.8.8.8''"
    using parsePacket_dns_substitution [of "IPv4 ''10.0.0.2'' ''8.8.8.8''" "''10.0.0.2''"
      "''8.8.8.8''" "TCP 50000 443 scenarioHeader scenarioPayload" 50000 443 scenarioHeader
      scenarioPayload ProtoTCP "''8.8.8.8''" tableClient scenarioHandler scenarioTable]
    by (auto simp add: scenario_dns)
  from tcp_on udp tcp_off miss show ?thesis
    by blast
qed

section \<open>Properties of the device setup\<close>

lemma bindAll_iff: "bindAll b addrs ip = (b ip \<or> ip \<in> set addrs)"
  by (induction addrs arbitrary: b) (auto simp add: bindAll_def)

lemma openDevices_result:
  "openDevices env devs c = Inr c' \<Longrightarrow>
     (\<forall>ip. bindIPs c' ip = (bindIPs c ip \<or> (\<exists>dev\<in>set devs. ip \<in> set (Addresses dev))))
   \<and> map device (handlers c') = map device (handlers c) @ map DevName devs"
proof (induction devs arbitrary: c)
  case Nil
  then show ?case by simp
next
  case (Cons dev devs)
  from Cons.prems obtain h where h: "getHandler env (DevName dev) = Inr h"
    by (auto split: sum.splits)
  let ?c1 = "c\<lparr>handlers := handlers c @ [\<lparr>device = DevName dev, handle = h\<rparr>],
               bindIPs := bindAll (bindIPs c) (Addresses dev)\<rparr>"
  from Cons.prems h have rest: "openDevices env devs ?c1 = Inr c'"
    by (auto split: sum.splits option.splits if_splits)
  from Cons.IH [OF rest] show ?case
    by (auto simp add: bindAll_iff)
qed

lemma twoDeviceClient_eval:
  "twoDeviceClient =
    Inr \<lparr>bindIPs = (\<lambda>_. False)(''10.0.0.2'' := True, ''10.0.1.2'' := True),
         handlers = [\<lparr>device = ''eth0'', handle = 0\<rparr>, \<lparr>device = ''eth1'', handle = 1\<rparr>],
         bpfFilter = ''tcp or udp'', Sinker = NewSinker,
         devicesPrefix = [''en'', ''lo'', ''eth'', ''em'', ''bond''],
         disableDNSResolve = False, allDevices = False, lookup = (\<lambda>ip. ip),
         processMonitor = None\<rparr>"
  by (simp add: twoDeviceClient_def NewPcapClient_def getAvailableDevices_def
      listPrefixDevices_def ListAllDevices_def twoDevices_def DefaultOptions_def
      getHandler_def setBPFFilter_def bindAll_def eth0Dev_def eth1Dev_def)

text \<open>
  Claim C8 as stated fails: with \<^verbatim>\<open>eth0\<close> (10.0.0.2) and \<^verbatim>\<open>eth1\<close> (10.0.1.2) both
  monitored, a frame read on the handle of \<^verbatim>\<open>eth0\<close> whose source address 10.0.1.2 is
  bound to \<^verbatim>\<open>eth1\<close> only is an upload.
\<close>

theorem direction_per_handle_counterexample:
  "\<not> isl twoDeviceClient
   \<and> handlers (projr twoDeviceClient)
       = [\<lparr>device = ''eth0'', handle = 0\<rparr>, \<lparr>device = ''eth1'', handle = 1\<rparr>]
   \<and> ''10.0.1.2'' \<notin> set (Addresses eth0Dev)
   \<and> ''10.0.1.2'' \<in> set (Addresses eth1Dev)
   \<and> map_option Direction
       (parsePacket (projr twoDeviceClient) \<lparr>device = ''eth0'', handle = 0\<rparr>
          [IPv4 ''10.0.1.2'' ''1.1.1.1'', TCP 50000 443 scenarioHeader scenarioPayload])
       = Some DirectionUpload"
proof -
  have "bindIPs (projr twoDeviceClient) ''10.0.1.2''"
    by (simp add: twoDeviceClient_eval)
  then have "map_option Direction
       (parsePacket (projr twoDeviceClient) \<lparr>device = ''eth0'', handle = 0\<rparr>
          [IPv4 ''10.0.1.2'' ''1.1.1.1'', TCP 50000 443 scenarioHeader scenarioPayload])
       = Some DirectionUpload"
    using parsePacket_two_layers [of "IPv4 ''10.0.1.2'' ''1.1.1.1''" "''10.0.1.2''" "''1.1.1.1''"
      "TCP 50000 443 scenarioHeader scenarioPayload" 50000 443 scenarioHeader scenarioPayload
      ProtoTCP "projr twoDeviceClient" "\<lparr>device = ''eth0'', handle = 0\<rparr>"]
    by simp
  then show ?thesis
    by (simp add: twoDeviceClient_eval eth0Dev_def eth1Dev_def)
qed

text \<open>
  Claim C8, amended. The client keeps one set of bound addresses for all of its handles:
  when \<^verbatim>\<open>getAvailableDevices\<close> succeeds, the set holds what it held before and every
  address of every selected device, one handler is added per selected device, and for a
  frame read on any handle the direction is upload exactly when the source address is in
  that one set, that is, when it is bound to any monitored interface.
\<close>

theorem direction_uses_client_wide_bindIPs:
  assumes "getAvailableDevices env c = Inr c'"
    and "ip = IPv4 src dst \<or> ip = IPv6 src dst"
    and "l4 = TCP sp dp hdr pl \<or> l4 = UDP sp dp hdr pl"
  shows "\<exists>devs. listPrefixDevices env (devicesPrefix c) (allDevices c) = Inr devs
    \<and> map device (handlers c') = map device (handlers c) @ map DevName devs
    \<and> (\<forall>a. bindIPs c' a = (bindIPs c a \<or> (\<exists>dev\<in>set devs. a \<in> set (Addresses dev))))
    \<and> (\<forall>ph. map_option Direction (parsePacket c' ph [ip, l4])
          = Some (if bindIPs c src \<or> (\<exists>dev\<in>set devs. src \<in> set (Addresses dev))
                  then DirectionUpload else DirectionDownload))"
proof -
  from assms(1) obtain devs where
    devs: "listPrefixDevices env (devicesPrefix c) (allDevices c) = Inr devs"
    and opened: "openDevices env devs c = Inr c'"
    by (auto simp add: getAvailableDevices_def split: sum.splits if_splits)
  note res = openDevices_result [OF opened]
  from assms(3) obtain p where
    l4: "l4 = TCP sp dp hdr pl \<and> p = ProtoTCP \<or> l4 = UDP sp dp hdr pl \<and> p = ProtoUDP"
    by blast
  have "\<forall>ph. map_option Direction (parsePacket c' ph [ip, l4])
          = Some (if bindIPs c src \<or> (\<exists>dev\<in>set devs. src \<in> set (Addresses dev))
                  then DirectionUpload else DirectionDownload)"
    using res by (simp add: parsePacket_two_layers [OF assms(2) l4])
  with devs res show ?thesis
    by blast
qed

theorem direction_uses_client_wide_bindIPs_witness:
  "\<exists>c'. NewPcapClient twoDevices (\<lambda>ip. ip) DefaultOptions None = Inr c'
     \<and> map device (handlers c') = [''eth0'', ''eth1'']
     \<and> bindIPs c' ''10.0.0.2'' \<and> bindIPs c' ''10.0.1.2'' \<and> \<not> bindIPs c' ''1.1.1.1''
     \<and> (\<forall>ph. map_option Direction
            (parsePacket c' ph
               [IPv4 ''10.0.1.2'' ''1.1.1.1'', TCP 50000 443 scenarioHeader scenarioPayload])
          = Some DirectionUpload)
     \<and> (\<forall>ph. map_option Direction
            (parsePacket c' ph
               [IPv4 ''1.1.1.1'' ''10.0.1.2'', TCP 443 50000 scenarioHeader scenarioPayload])
          = Some DirectionDownload)"
proof -
  let ?c0 = "\<lparr>bindIPs = (\<lambda>_. False), handlers = [], bpfFilter = BPFFilter DefaultOptions,
       Sinker = NewSinker, devicesPrefix = DevicesPrefix DefaultOptions,
       disableDNSResolve = DisableDNSResolve DefaultOptions,
       allDevices = AllDevices DefaultOptions, lookup = (\<lambda>ip. ip), processMonitor = None\<rparr>"
  obtain c' where c': "getAvailableDevices twoDevices ?c0 = Inr c'"
    using twoDeviceClient_eval by (simp add: twoDeviceClient_def NewPcapClient_def)
  have sel: "listPrefixDevices twoDevices (devicesPrefix ?c0) (allDevices ?c0)
      = Inr [eth0Dev, eth1Dev]"
    by (simp add: listPrefixDevices_def ListAllDevices_def twoDevices_def DefaultOptions_def
        eth0Dev_def eth1Dev_def)
  from direction_uses_client_wide_bindIPs [OF c', of "IPv4 ''10.0.1.2'' ''1.1.1.1''"
      "''10.0.1.2''" "''1.1.1.1''" "TCP 50000 443 scenarioHeader scenarioPayload"
      50000 443 scenarioHeader scenarioPayload] sel
  have up: "map device (handlers c') = [''eth0'', ''eth1'']"
    "\<forall>a. bindIPs c' a = (a = ''10.0.0.2'' \<or> a = ''10.0.1.2'')"
    "\<forall>ph. map_option Direction
            (parsePacket c' ph
               [IPv4 ''10.0.1.2'' ''1.1.1.1'', TCP 50000 443 scenarioHeader scenarioPayload])
          = Some DirectionUpload"
    by (simp_all add: eth0Dev_def eth1Dev_def)
  from direction_uses_client_wide_bindIPs [OF c', of "IPv4 ''1.1.1.1'' ''10.0.1.2''"
      "''1.1.1.1''" "''10.0.1.2''" "TCP 443 50000 scenarioHeader scenarioPayload"
      443 50000 scenarioHeader scenarioPayload] sel
  have down: "\<forall>ph. map_option Direction
            (parsePacket c' ph
               [IPv4 ''1.1.1.1'' ''10.0.1.2'', TCP 443 50000 scenarioHeader scenarioPayload])
          = Some DirectionDownload"
    by (simp add: eth0Dev_def eth1Dev_def)
  from c' up down show ?thesis
    by (simp add: NewPcapClient_def)
qed

section \<open>Properties of the diagnosis stream\<close>

lemma portCacheExtends_refl: "portCacheExtends h nl nl"
  by (simp add: portCacheExtends_def)

lemma portCacheExtends_trans:
  "portCacheExtends h nl nl' \<Longrightarrow> portCacheExtends h nl' nl'' \<Longrightarrow> portCacheExtends h nl nl''"
  by (simp add: portCacheExtends_def)

lemma diagRecord_sockets:
  "diagRecord h proto inodeMap m now st = Inr st' \<Longrightarrow>
   fst st' = (fst st)(recordSocket h proto m \<mapsto> inodeLookup inodeMap (IDiagInode m))"
  by (auto simp add: diagRecord_def Let_def split: if_splits option.splits)

lemma diagRecord_extends:
  "diagRecord h proto inodeMap m now st = Inr st' \<Longrightarrow> portCacheExtends h (snd st) (snd st')"
  by (auto simp add: diagRecord_def Let_def portCacheExtends_def portCacheAt_def
      portCacheNamed_def namedProcess_def split: if_splits option.splits)

lemma upd_add_map_of_rev:
  "(s(k \<mapsto> v)) ++ map_of (rev es) = s ++ map_of (rev ((k, v) # es))"
proof -
  have "s ++ map_of (rev ((k, v) # es)) = s ++ (map_of [(k, v)] ++ map_of (rev es))"
    by (simp only: rev.simps map_of_append)
  also have "\<dots> = (s ++ map_of [(k, v)]) ++ map_of (rev es)"
    by (simp only: map_add_assoc)
  also have "s ++ map_of [(k, v)] = s(k \<mapsto> v)"
    by simp
  finally show ?thesis by simp
qed

lemma diagMsgs_result:
  "diagMsgs h proto inodeMap msgs st = Inr res \<Longrightarrow>
     fst res = terminated msgs
   \<and> fst (snd res) = fst st ++ map_of (rev (entriesOf h proto inodeMap (batchRecords msgs)))
   \<and> portCacheExtends h (snd st) (snd (snd res))
   \<and> (\<forall>msg\<in>set (batchRecords msgs). Data msg \<noteq> None)"
proof (induction msgs arbitrary: st)
  case Nil
  then show ?case
    by (auto simp add: terminated_def batchRecords_def entriesOf_def map_filter_simps
        portCacheExtends_refl)
next
  case (Cons mt rest)
  show ?case
  proof (cases "HeaderType (fst mt) = NLMSG_DONE")
    case True
    with Cons.prems show ?thesis
      by (auto simp add: terminated_def batchRecords_def entriesOf_def map_filter_simps
          portCacheExtends_refl)
  next
    case False
    with Cons.prems obtain m st' where m: "Data (fst mt) = Some m"
      and st': "diagRecord h proto inodeMap m (snd mt) st = Inr st'"
      and rest: "diagMsgs h proto inodeMap rest st' = Inr res"
      by (auto split: option.splits sum.splits)
    note ih = Cons.IH [OF rest]
    have ents: "entriesOf h proto inodeMap (batchRecords (mt # rest))
        = recordEntry h proto inodeMap m # entriesOf h proto inodeMap (batchRecords rest)"
      using False m by (simp add: entriesOf_def batchRecords_def map_filter_simps)
    have socks: "fst (snd res)
        = fst st ++ map_of (rev (entriesOf h proto inodeMap (batchRecords (mt # rest))))"
      using ih diagRecord_sockets [OF st']
      by (simp only: ents recordEntry_def upd_add_map_of_rev)
    have ext: "portCacheExtends h (snd st) (snd (snd res))"
      using ih diagRecord_extends [OF st'] portCacheExtends_trans by blast
    from ih False m socks ext show ?thesis
      by (auto simp add: terminated_def batchRecords_def)
  qed
qed

lemma entriesOf_append:
  "entriesOf h proto inodeMap (xs @ ys)
     = entriesOf h proto inodeMap xs @ entriesOf h proto inodeMap ys"
  by (simp add: entriesOf_def map_filter_def)

lemma add_map_of_rev_append:
  "s ++ map_of (rev (xs @ ys)) = (s ++ map_of (rev xs)) ++ map_of (rev ys)"
  by (simp only: rev_append map_of_append map_add_assoc)

lemma recvLoop_result:
  "recvLoop h proto inodeMap stream st = Inr res \<Longrightarrow>
     fst (fst res)
       = fst st ++ map_of (rev (entriesOf h proto inodeMap (streamRecords stream)))
   \<and> portCacheExtends h (snd st) (snd res)
   \<and> (\<forall>msg\<in>set (streamRecords stream). Data msg \<noteq> None)"
proof (induction stream arbitrary: st)
  case Nil
  then show ?case
    by (auto simp add: entriesOf_def map_filter_simps portCacheExtends_refl)
next
  case (Cons r rs)
  show ?case
  proof (cases r)
    case (RecvMsgs msgs)
    with Cons.prems obtain b where b: "diagMsgs h proto inodeMap msgs st = Inr b"
      by (auto split: sum.splits)
    note batch = diagMsgs_result [OF b]
    show ?thesis
    proof (cases "terminated msgs")
      case True
      with Cons.prems RecvMsgs b batch have "res = ((fst (snd b), None), snd (snd b))"
        by simp
      with batch True RecvMsgs show ?thesis
        by simp
    next
      case False
      with Cons.prems RecvMsgs b batch
      have rest: "recvLoop h proto inodeMap rs (snd b) = Inr res"
        by simp
      note ih = Cons.IH [OF rest]
      have "fst (fst res) = fst st ++ map_of (rev (entriesOf h proto inodeMap
              (batchRecords msgs @ streamRecords rs)))"
        using ih batch by (simp only: entriesOf_append add_map_of_rev_append)
      moreover have "portCacheExtends h (snd st) (snd res)"
        using ih batch portCacheExtends_trans by blast
      ultimately show ?thesis
        using ih batch False RecvMsgs by auto
    qed
  qed (use Cons.prems in \<open>auto simp add: entriesOf_def map_filter_simps portCacheExtends_refl\<close>)
qed

lemma sockdiagRecv_result:
  "sockdiagRecv h w nl skfd proto inodeMap = Inr res \<Longrightarrow>
     fst (fst res) = map_of (rev (entriesOf h proto inodeMap (streamRecords (recvStream w skfd))))
   \<and> portCacheExtends h nl (snd res)
   \<and> (\<forall>msg\<in>set (streamRecords (recvStream w skfd)). Data msg \<noteq> None)"
  using recvLoop_result [of h proto inodeMap "recvStream w skfd" "(Map.empty, nl)" res]
  by (simp add: sockdiagRecv_def)

lemma enumerated_Cons:
  "enumerated h w inodeMap (fd # fds)
     = entriesOf h (snd fd) inodeMap (streamRecords (recvStream w (fst fd)))
       @ enumerated h w inodeMap fds"
  by (simp add: enumerated_def)

lemma recvAll_result:
  "recvAll h w inodeMap fds st = Inr res \<Longrightarrow>
     portCacheExtends h (snd st) (snd res)
   \<and> (snd (fst res) = None \<longrightarrow>
        fst (fst res) = fst st ++ map_of (rev (enumerated h w inodeMap fds))
      \<and> (\<forall>fd\<in>set fds. \<forall>msg\<in>set (streamRecords (recvStream w (fst fd))). Data msg \<noteq> None))"
proof (induction fds arbitrary: st)
  case Nil
  then show ?case
    by (auto simp add: enumerated_def portCacheExtends_refl)
next
  case (Cons fd fds)
  from Cons.prems obtain r where
    r: "sockdiagRecv h w (snd st) (fst fd) (snd fd) inodeMap = Inr r"
    by (auto split: sum.splits)
  note one = sockdiagRecv_result [OF r]
  show ?case
  proof (cases "snd (fst r)")
    case (Some err)
    with Cons.prems r have "res = ((fst st, Some err), snd r)"
      by simp
    with one show ?thesis
      by simp
  next
    case None
    with Cons.prems r have rest: "recvAll h w inodeMap fds (fst st ++ fst (fst r), snd r) = Inr res"
      by simp
    note ih = Cons.IH [OF rest]
    have ext: "portCacheExtends h (snd st) (snd res)"
      using ih one portCacheExtends_trans by fastforce
    have "snd (fst res) = None \<longrightarrow>
        fst (fst res) = fst st ++ map_of (rev (enumerated h w inodeMap (fd # fds)))"
      using ih one by (simp only: enumerated_Cons add_map_of_rev_append) simp
    with ih one ext show ?thesis
      by auto
  qed
qed

lemma getOpenSockets_result:
  "getOpenSockets h w nl inodeMap = Inr res \<Longrightarrow>
     portCacheExtends h nl (snd res)
   \<and> (snd (fst res) = None \<longrightarrow>
        (\<exists>fds. sendAll w (reqs w) = Inr fds
          \<and> fst (fst res) = map_of (rev (enumerated h w inodeMap fds))
          \<and> (\<forall>fd\<in>set fds. \<forall>msg\<in>set (streamRecords (recvStream w (fst fd))).
                Data msg \<noteq> None)))"
proof (cases "sendAll w (reqs w)")
  case (Inl err)
  assume "getOpenSockets h w nl inodeMap = Inr res"
  with Inl show ?thesis
    by (auto simp add: getOpenSockets_def portCacheExtends_refl)
next
  case (Inr fds)
  assume "getOpenSockets h w nl inodeMap = Inr res"
  with Inr have "recvAll h w inodeMap fds (Map.empty, nl) = Inr res"
    by (simp add: getOpenSockets_def)
  from recvAll_result [OF this] Inr show ?thesis
    by simp
qed

section \<open>Properties of the inode map and of a whole refresh\<close>

lemma collectInodes_portCache:
  "collectInodes p now is st = Inr st' \<Longrightarrow> portCache (snd st') = portCache (snd st)"
  by (induction "is" arbitrary: st) (auto split: option.splits)

lemma collectResults_portCache:
  "collectResults now rs st = Inr st' \<Longrightarrow> portCache (snd st') = portCache (snd st)"
proof (induction rs arbitrary: st)
  case Nil
  then show ?case by simp
next
  case (Cons r rs)
  from Cons.prems obtain st1 where one: "collectInodes (procInfo r) now (inodes r) st = Inr st1"
    and rest: "collectResults now rs st1 = Inr st'"
    by (auto split: sum.splits)
  from Cons.IH [OF rest] collectInodes_portCache [OF one] show ?case
    by simp
qed

lemma sweep_fresh: "inodeCacheFresh now (sweepInodeCache now nl)"
  by (auto simp add: inodeCacheFresh_def sweepInodeCache_def inodeCacheAt_def
      split: option.splits if_splits)

lemma sweep_portCache: "portCache (sweepInodeCache now nl) = portCache nl"
  by (simp add: sweepInodeCache_def)

lemma getAllProcsInodes_result:
  "getAllProcsInodes w nl pids = Inr st \<Longrightarrow>
     portCache (snd st) = portCache nl \<and> inodeCacheFresh (timeNow w) (snd st)"
  by (auto simp add: getAllProcsInodes_def Let_def sweep_fresh sweep_portCache
      dest: collectResults_portCache split: sum.splits)

lemma portCacheExtends_fresh:
  "portCacheExtends h nl nl' \<Longrightarrow> inodeCacheFresh now nl \<Longrightarrow> inodeCacheFresh now nl'"
  by (simp add: portCacheExtends_def inodeCacheFresh_def inodeCacheAt_def)

lemma portCacheExtends_eq_portCache:
  "portCache nl1 = portCache nl \<Longrightarrow> portCacheExtends h nl1 nl' \<Longrightarrow>
     (\<forall>port. portCacheAt nl port \<noteq> None \<longrightarrow> portCacheAt nl' port \<noteq> None)
   \<and> (portCacheNamed h nl \<longrightarrow> portCacheNamed h nl')"
  by (simp add: portCacheExtends_def portCacheNamed_def portCacheAt_def)

text \<open>
  A refresh that lists the pids and does not panic: the inode cache is fresh at the
  refresh's clock reading, every port that had an entry still has one, and the port cache
  holds named processes only if it did before.
\<close>

lemma GetOpenSockets_caches:
  assumes "listPids w = Inr pids" and "GetOpenSockets h w nl = Inr res"
  shows "inodeCacheFresh (timeNow w) (snd res)
   \<and> (\<forall>port. portCacheAt nl port \<noteq> None \<longrightarrow> portCacheAt (snd res) port \<noteq> None)
   \<and> (portCacheNamed h nl \<longrightarrow> portCacheNamed h (snd res))"
proof -
  from assms obtain st where st: "getAllProcsInodes w nl pids = Inr st"
    and res: "getOpenSockets h w (snd st) (fst st) = Inr res"
    by (auto simp add: GetOpenSockets_def split: sum.splits)
  note a = getAllProcsInodes_result [OF st]
  from getOpenSockets_result [OF res] have ext: "portCacheExtends h (snd st) (snd res)"
    by simp
  from a ext portCacheExtends_fresh portCacheExtends_eq_portCache show ?thesis
    by blast
qed

lemma GetOpenSockets_portCache:
  assumes "GetOpenSockets h w nl = Inr res"
  shows "(\<forall>port. portCacheAt nl port \<noteq> None \<longrightarrow> portCacheAt (snd res) port \<noteq> None)
   \<and> (portCacheNamed h nl \<longrightarrow> portCacheNamed h (snd res))"
proof (cases "listPids w")
  case (Inl err)
  with assms show ?thesis
    by (auto simp add: GetOpenSockets_def)
next
  case (Inr pids)
  from GetOpenSockets_caches [OF Inr assms] show ?thesis
    by simp
qed

lemma RefreshProcesses_cases:
  assumes "RefreshProcesses h w pm = Inr out"
  shows "(\<exists>err. listPids w = Inl err \<and> out = (Some err, pm))
    \<or> (\<exists>pids st res. listPids w = Inr pids
          \<and> getAllProcsInodes w (nlConn pm) pids = Inr st
          \<and> getOpenSockets h w (snd st) (fst st) = Inr res
          \<and> out = (snd (fst res),
                   if snd (fst res) = None
                   then pm\<lparr>socketMap := fst (fst res), nlConn := snd res\<rparr>
                   else pm\<lparr>nlConn := snd res\<rparr>))"
proof (cases "listPids w")
  case (Inl err)
  with assms show ?thesis
    by (simp add: RefreshProcesses_def)
next
  case (Inr pids)
  with assms obtain st where st: "getAllProcsInodes w (nlConn pm) pids = Inr st"
    by (cases "getAllProcsInodes w (nlConn pm) pids") (simp_all add: RefreshProcesses_def)
  with assms Inr obtain res where res: "getOpenSockets h w (snd st) (fst st) = Inr res"
    by (cases "getOpenSockets h w (snd st) (fst st)") (simp_all add: RefreshProcesses_def)
  from assms Inr st res have "out = (snd (fst res),
                   if snd (fst res) = None
                   then pm\<lparr>socketMap := fst (fst res), nlConn := snd res\<rparr>
                   else pm\<lparr>nlConn := snd res\<rparr>)"
    by (cases "snd (fst res)") (simp_all add: RefreshProcesses_def)
  with Inr st res show ?thesis
    by blast
qed

lemma be16_port:
  "(word_of_int (be16_Int h v) :: 16 word) = push_bit 8 (ucast (fst v)) OR ucast (snd v)"
proof -
  have masks: "(0xff00 :: 16 word) = push_bit 8 (mask 8)" "(0xff :: 16 word) = mask 8"
    by (simp_all add: mask_eq_exp_minus_1)
  have le: "drop_bit 8 ((push_bit 8 (ucast b1) OR ucast b0) AND (0xff00 :: 16 word))
          OR push_bit 8 ((push_bit 8 (ucast b1) OR ucast b0) AND 0xff)
        = push_bit 8 (ucast b0) OR ucast b1" for b0 b1 :: "8 word"
    unfolding masks
    by (rule bit_word_eqI) (auto simp add: bit_simps dest: bit_imp_le_length)
  show ?thesis
  proof (cases v)
    case (Pair b0 b1)
    show ?thesis
    proof (cases "nativeBigEndian h")
      case True
      with Pair show ?thesis
        by (simp add: be16_Int_def Swap_def nativeUint16_def)
    next
      case False
      with Pair le [of b1 b0]
      have "Swap h (nativeUint16 h v) = push_bit 8 (ucast b0) OR ucast b1"
        by (simp only: Swap_def nativeUint16_def if_False fst_conv snd_conv)
      with Pair show ?thesis
        by (simp add: be16_Int_def)
    qed
  qed
qed

lemma scenario_sockets:
  "recordSocket scenarioHost IPPROTO_TCP nginxRecord
     = \<lparr>LocalIP = ''0.0.0.0'', LocalPort = 8080, LocalProtocol = ProtoTCP\<rparr>"
  "recordSocket scenarioHost IPPROTO_TCP orphanRecord
     = \<lparr>LocalIP = ''0.0.0.0'', LocalPort = 22, LocalProtocol = ProtoTCP\<rparr>"
  by (simp_all add: recordSocket_def scenarioHost_def nginxRecord_def orphanRecord_def
      ipHex2String_def AF_INET_def AF_INET6_def ipv4_def anyAddr_def net_IPv4_def dottedQuad_def
      formatInt_def be16_port protoName_def IPPROTO_TCP_def)

lemma scenario_inodes:
  "\<exists>st. getAllProcsInodes scenarioOS GetSocketFetcher [7] = Inr st
     \<and> fst st 4242 = Some \<lparr>Pid = 7, Name = ''nginx''\<rparr> \<and> fst st 999 = None
     \<and> portCache (snd st) = Some Map.empty
     \<and> inodeCacheAt (snd st) 4242
         = Some \<lparr>info = \<lparr>Pid = 7, Name = ''nginx''\<rparr>, timestamp = 6 * Second\<rparr>"
  by (simp add: getAllProcsInodes_def scenarioOS_def GetSocketFetcher_def workerResults_def
      validCached_def inodeCacheAt_def sweepInodeCache_def cacheTimeout_def Second_def)

lemma scenario_fields:
  "IDiagInode nginxRecord = 4242" "IDiagInode orphanRecord = 999"
  "unknownProcessName scenarioHost = ''<UNKNOWN>''"
  by (simp_all add: nginxRecord_def orphanRecord_def scenarioHost_def)

lemma scenario_run:
  "\<exists>res. GetOpenSockets scenarioHost scenarioOS GetSocketFetcher = Inr res
     \<and> snd (fst res) = None
     \<and> fst (fst res) \<lparr>LocalIP = ''0.0.0.0'', LocalPort = 8080, LocalProtocol = ProtoTCP\<rparr>
         = Some \<lparr>Pid = 7, Name = ''nginx''\<rparr>
     \<and> fst (fst res) \<lparr>LocalIP = ''0.0.0.0'', LocalPort = 22, LocalProtocol = ProtoTCP\<rparr>
         = Some \<lparr>Pid = 0, Name = ''''\<rparr>
     \<and> portCacheAt (snd res) 8080
         = Some \<lparr>info = \<lparr>Pid = 7, Name = ''nginx''\<rparr>, timestamp = 6 * Second + 1\<rparr>
     \<and> portCacheAt (snd res) 22 = None"
  by (simp add: GetOpenSockets_def listPids_def getAllProcsInodes_def scenarioOS_def
      GetSocketFetcher_def workerResults_def validCached_def inodeCacheAt_def
      sweepInodeCache_def cacheTimeout_def getOpenSockets_def reqs_def sockdiagSend_def
      IPPROTO_TCP_def IPPROTO_UDP_def sockdiagRecv_def diagMessage_def doneMessage_def
      NLMSG_DONE_def diagRecord_def Let_def inodeLookup_def zeroProcessInfo_def
      scenario_sockets [unfolded IPPROTO_TCP_def] scenario_fields portCacheAt_def)

section \<open>The claims about the resolver\<close>

lemma RefreshProcesses_portCacheNamed:
  assumes "RefreshProcesses h w pm = Inr out" and "portCacheNamed h (nlConn pm)"
  shows "portCacheNamed h (nlConn (snd out))"
proof -
  from RefreshProcesses_cases [OF assms(1)] show ?thesis
  proof (elim disjE exE conjE)
    fix err
    assume "out = (Some err, pm)"
    with assms(2) show ?thesis by simp
  next
    fix pids st res
    assume st: "getAllProcsInodes w (nlConn pm) pids = Inr st"
      and res: "getOpenSockets h w (snd st) (fst st) = Inr res"
      and out: "out = (snd (fst res),
                   if snd (fst res) = None
                   then pm\<lparr>socketMap := fst (fst res), nlConn := snd res\<rparr>
                   else pm\<lparr>nlConn := snd res\<rparr>)"
    from getOpenSockets_result [OF res] have "portCacheExtends h (snd st) (snd res)"
      by simp
    with getAllProcsInodes_result [OF st] assms(2) have "portCacheNamed h (snd res)"
      using portCacheExtends_eq_portCache by blast
    with out show ?thesis
      by simp
  qed
qed

lemma portCacheNamed_new: "portCacheNamed h GetSocketFetcher"
  by (simp add: portCacheNamed_def portCacheAt_def GetSocketFetcher_def)

text \<open>
  Claim C6. While a diagnosis record is handled, the port cache gets an entry for the
  record's port exactly when the process found for the record's inode has a name that is
  neither empty nor the unknown one: with such a name the entry (the process and the
  clock reading) is written, or, where the connection was built without its caches, the
  assignment to the nil map panics and the record is not handled at all; without such a
  name the connection is left as it is. Hence the port cache of \<^verbatim>\<open>GetSocketFetcher\<close>,
  which starts empty, never holds an empty or unknown name, whatever refreshes run on it.
\<close>

theorem portCache_written_iff_named:
  "(namedProcess h (inodeLookup inodeMap (IDiagInode m)) \<and> portCache nl = Some pc \<longrightarrow>
      (\<exists>sockets'. diagRecord h proto inodeMap m now (sockets, nl)
         = Inr (sockets',
                nl\<lparr>portCache := Some (pc(LocalPort (recordSocket h proto m) \<mapsto>
                       \<lparr>info = inodeLookup inodeMap (IDiagInode m), timestamp = now\<rparr>))\<rparr>)))
   \<and> (namedProcess h (inodeLookup inodeMap (IDiagInode m)) \<and> portCache nl = None \<longrightarrow>
        diagRecord h proto inodeMap m now (sockets, nl) = Inl NilMapAssignment)
   \<and> (\<not> namedProcess h (inodeLookup inodeMap (IDiagInode m)) \<longrightarrow>
        (\<exists>sockets'. diagRecord h proto inodeMap m now (sockets, nl) = Inr (sockets', nl)))
   \<and> namedProcess h p = (Name p \<noteq> '''' \<and> Name p \<noteq> unknownProcessName h)
   \<and> portCacheNamed h GetSocketFetcher
   \<and> (portCacheNamed h nl \<and> GetOpenSockets h w nl = Inr res \<longrightarrow> portCacheNamed h (snd res))
   \<and> (portCacheNamed h (nlConn pm) \<and> RefreshProcesses h w pm = Inr out \<longrightarrow>
        portCacheNamed h (nlConn (snd out)))
   \<and> (portCacheNamed h nl \<and> portCacheAt nl port = Some cached \<longrightarrow>
        Name (info cached) \<noteq> '''' \<and> Name (info cached) \<noteq> unknownProcessName h)"
proof -
  have written: "namedProcess h (inodeLookup inodeMap (IDiagInode m)) \<and> portCache nl = Some pc \<longrightarrow>
      (\<exists>sockets'. diagRecord h proto inodeMap m now (sockets, nl)
         = Inr (sockets',
                nl\<lparr>portCache := Some (pc(LocalPort (recordSocket h proto m) \<mapsto>
                       \<lparr>info = inodeLookup inodeMap (IDiagInode m), timestamp = now\<rparr>))\<rparr>))"
    by (simp add: diagRecord_def Let_def namedProcess_def)
  have panics: "namedProcess h (inodeLookup inodeMap (IDiagInode m)) \<and> portCache nl = None \<longrightarrow>
        diagRecord h proto inodeMap m now (sockets, nl) = Inl NilMapAssignment"
    by (simp add: diagRecord_def Let_def namedProcess_def)
  have skipped: "\<not> namedProcess h (inodeLookup inodeMap (IDiagInode m)) \<longrightarrow>
        (\<exists>sockets'. diagRecord h proto inodeMap m now (sockets, nl) = Inr (sockets', nl))"
    by (auto simp add: diagRecord_def Let_def namedProcess_def)
  have named: "namedProcess h p = (Name p \<noteq> '''' \<and> Name p \<noteq> unknownProcessName h)"
    by (simp add: namedProcess_def)
  have refresh: "portCacheNamed h nl \<and> GetOpenSockets h w nl = Inr res \<longrightarrow>
      portCacheNamed h (snd res)"
    using GetOpenSockets_portCache [of h w nl res] by blast
  have monitor: "portCacheNamed h (nlConn pm) \<and> RefreshProcesses h w pm = Inr out \<longrightarrow>
        portCacheNamed h (nlConn (snd out))"
    using RefreshProcesses_portCacheNamed [of h w pm out] by blast
  have entries: "portCacheNamed h nl \<and> portCacheAt nl port = Some cached \<longrightarrow>
        Name (info cached) \<noteq> '''' \<and> Name (info cached) \<noteq> unknownProcessName h"
    by (auto simp add: portCacheNamed_def namedProcess_def)
  from written panics skipped named portCacheNamed_new refresh monitor entries
  show ?thesis
    by blast
qed

lemmas scenario_eval =
  listPids_def getAllProcsInodes_def scenarioOS_def
  GetSocketFetcher_def workerResults_def validCached_def inodeCacheAt_def
  sweepInodeCache_def cacheTimeout_def getOpenSockets_def reqs_def sockdiagSend_def
  IPPROTO_TCP_def IPPROTO_UDP_def sockdiagRecv_def diagMessage_def doneMessage_def
  NLMSG_DONE_def diagRecord_def Let_def inodeLookup_def zeroProcessInfo_def
  scenario_sockets [unfolded IPPROTO_TCP_def] scenario_fields portCacheAt_def

lemma scenario_refresh:
  "\<exists>pm'. RefreshProcesses scenarioHost scenarioOS staleMonitor = Inr (None, pm')
     \<and> socketMap pm' \<lparr>LocalIP = ''0.0.0.0'', LocalPort = 8080, LocalProtocol = ProtoTCP\<rparr>
         = Some \<lparr>Pid = 7, Name = ''nginx''\<rparr>
     \<and> socketMap pm' \<lparr>LocalIP = ''0.0.0.0'', LocalPort = 22, LocalProtocol = ProtoTCP\<rparr>
         = Some \<lparr>Pid = 0, Name = ''''\<rparr>
     \<and> socketMap pm' \<lparr>LocalIP = ''10.0.0.2'', LocalPort = 50000, LocalProtocol = ProtoTCP\<rparr>
         = None"
  by (simp add: RefreshProcesses_def staleMonitor_def scenario_eval)

lemma timeout_refresh:
  "\<exists>pm'. RefreshProcesses scenarioHost timeoutOS staleMonitor = Inr (Some EAGAIN, pm')"
  by (simp add: RefreshProcesses_def staleMonitor_def timeoutOS_def scenario_eval)

lemma failing_refresh:
  "RefreshProcesses h failingOS pm = Inr (Some (Errno 13), pm)"
  by (simp add: RefreshProcesses_def failingOS_def listPids_def)

text \<open>
  The monitor \<^verbatim>\<open>NewProcessMonitor\<close> builds has a connection without caches: its first
  refresh that scans a process with a socket inode panics on the assignment to the nil
  inode cache.
\<close>

lemma NewProcessMonitor_refresh_panics:
  "RefreshProcesses scenarioHost scenarioOS NewProcessMonitor = Inl NilMapAssignment"
  by (simp add: RefreshProcesses_def NewProcessMonitor_def listPids_def getAllProcsInodes_def
      scenarioOS_def workerResults_def Let_def)

theorem portCache_written_iff_named_witness:
  "namedProcess scenarioHost
     (inodeLookup [4242 \<mapsto> \<lparr>Pid = 7, Name = ''nginx''\<rparr>] (IDiagInode nginxRecord))
   \<and> portCache GetSocketFetcher = Some Map.empty
   \<and> (\<exists>sockets'. diagRecord scenarioHost IPPROTO_TCP [4242 \<mapsto> \<lparr>Pid = 7, Name = ''nginx''\<rparr>]
          nginxRecord 1 (Map.empty, GetSocketFetcher)
        = Inr (sockets', GetSocketFetcher\<lparr>portCache :=
                 Some [8080 \<mapsto> \<lparr>info = \<lparr>Pid = 7, Name = ''nginx''\<rparr>, timestamp = 1\<rparr>]\<rparr>))
   \<and> portCache (nlConn NewProcessMonitor) = None
   \<and> diagRecord scenarioHost IPPROTO_TCP [4242 \<mapsto> \<lparr>Pid = 7, Name = ''nginx''\<rparr>]
          nginxRecord 1 (Map.empty, nlConn NewProcessMonitor) = Inl NilMapAssignment
   \<and> \<not> namedProcess scenarioHost
         (inodeLookup [4242 \<mapsto> \<lparr>Pid = 7, Name = ''nginx''\<rparr>] (IDiagInode orphanRecord))
   \<and> (\<exists>sockets'. diagRecord scenarioHost IPPROTO_TCP [4242 \<mapsto> \<lparr>Pid = 7, Name = ''nginx''\<rparr>]
          orphanRecord 1 (Map.empty, GetSocketFetcher) = Inr (sockets', GetSocketFetcher))
   \<and> \<not> namedProcess scenarioHost \<lparr>Pid = 9, Name = ''<UNKNOWN>''\<rparr>
   \<and> (\<exists>res. GetOpenSockets scenarioHost scenarioOS GetSocketFetcher = Inr res
        \<and> portCacheNamed scenarioHost (snd res)
        \<and> portCacheAt (snd res) 8080
            = Some \<lparr>info = \<lparr>Pid = 7, Name = ''nginx''\<rparr>, timestamp = 6 * Second + 1\<rparr>
        \<and> ''nginx'' \<noteq> '''' \<and> ''nginx'' \<noteq> unknownProcessName scenarioHost)
   \<and> (\<exists>out. RefreshProcesses scenarioHost scenarioOS staleMonitor = Inr out
        \<and> portCacheNamed scenarioHost (nlConn (snd out)))"
proof -
  let ?im = "[4242 \<mapsto> \<lparr>Pid = 7, Name = ''nginx''\<rparr>]"
  let ?nginx = "\<lparr>Pid = 7, Name = ''nginx''\<rparr>"
  have named: "namedProcess scenarioHost (inodeLookup ?im (IDiagInode nginxRecord))"
    by (simp add: namedProcess_def inodeLookup_def scenario_fields)
  have unnamed: "\<not> namedProcess scenarioHost (inodeLookup ?im (IDiagInode orphanRecord))"
    by (simp add: namedProcess_def inodeLookup_def scenario_fields zeroProcessInfo_def)
  have alloc: "portCache GetSocketFetcher = Some Map.empty"
    by (simp add: GetSocketFetcher_def)
  have nil: "portCache (nlConn NewProcessMonitor) = None"
    by (simp add: NewProcessMonitor_def)
  have new: "portCacheNamed scenarioHost GetSocketFetcher"
    using portCache_written_iff_named [of scenarioHost ?im nginxRecord GetSocketFetcher
        Map.empty IPPROTO_TCP 1 Map.empty ?nginx]
    by blast
  have stale: "portCacheNamed scenarioHost (nlConn staleMonitor)"
    using new by (simp add: staleMonitor_def)
  have written: "\<exists>sockets'. diagRecord scenarioHost IPPROTO_TCP ?im nginxRecord 1
          (Map.empty, GetSocketFetcher)
        = Inr (sockets', GetSocketFetcher\<lparr>portCache :=
                 Some [8080 \<mapsto> \<lparr>info = ?nginx, timestamp = 1\<rparr>]\<rparr>)"
    using portCache_written_iff_named [of scenarioHost ?im nginxRecord GetSocketFetcher
        Map.empty IPPROTO_TCP 1 Map.empty ?nginx] named alloc
    by (simp add: scenario_sockets inodeLookup_def scenario_fields)
  have panics: "diagRecord scenarioHost IPPROTO_TCP ?im nginxRecord 1
          (Map.empty, nlConn NewProcessMonitor) = Inl NilMapAssignment"
    using portCache_written_iff_named [of scenarioHost ?im nginxRecord "nlConn NewProcessMonitor"
        Map.empty IPPROTO_TCP 1 Map.empty ?nginx] named nil
    by blast
  have skipped: "\<exists>sockets'. diagRecord scenarioHost IPPROTO_TCP ?im orphanRecord 1
          (Map.empty, GetSocketFetcher) = Inr (sockets', GetSocketFetcher)"
    using portCache_written_iff_named [of scenarioHost ?im orphanRecord GetSocketFetcher
        Map.empty IPPROTO_TCP 1 Map.empty ?nginx] unnamed
    by blast
  have sentinel: "\<not> namedProcess scenarioHost \<lparr>Pid = 9, Name = ''<UNKNOWN>''\<rparr>"
    using portCache_written_iff_named [of scenarioHost ?im nginxRecord GetSocketFetcher
        Map.empty IPPROTO_TCP 1 Map.empty "\<lparr>Pid = 9, Name = ''<UNKNOWN>''\<rparr>"]
    by (simp add: scenario_fields)
  from scenario_run obtain res where
    res: "GetOpenSockets scenarioHost scenarioOS GetSocketFetcher = Inr res"
    and at: "portCacheAt (snd res) 8080 = Some \<lparr>info = ?nginx, timestamp = 6 * Second + 1\<rparr>"
    by blast
  from portCache_written_iff_named [of scenarioHost ?im nginxRecord GetSocketFetcher
        Map.empty IPPROTO_TCP 1 Map.empty ?nginx scenarioOS res] new res
  have inv: "portCacheNamed scenarioHost (snd res)"
    by blast
  from portCache_written_iff_named [of scenarioHost ?im nginxRecord "snd res"
        Map.empty IPPROTO_TCP 1 Map.empty ?nginx scenarioOS res staleMonitor _ 8080
        "\<lparr>info = ?nginx, timestamp = 6 * Second + 1\<rparr>"] inv at
  have good: "''nginx'' \<noteq> '''' \<and> ''nginx'' \<noteq> unknownProcessName scenarioHost"
    by simp
  from scenario_refresh obtain out where
    out: "RefreshProcesses scenarioHost scenarioOS staleMonitor = Inr out"
    by blast
  from portCache_written_iff_named [of scenarioHost ?im nginxRecord GetSocketFetcher
        Map.empty IPPROTO_TCP 1 Map.empty ?nginx scenarioOS res staleMonitor out] stale out
  have inv': "portCacheNamed scenarioHost (nlConn (snd out))"
    by blast
  from named alloc written nil panics unnamed skipped sentinel res inv at good out inv'
  show ?thesis
    by blast
qed

text \<open>
  Claim C7. A call of \<^verbatim>\<open>RefreshProcesses\<close> that returns no error has replaced the socket
  map by the map \<^verbatim>\<open>getOpenSockets\<close> built, which holds the entries of the diagnosis
  streams and nothing of the map before; a call that returns an error has left the
  socket map as it was. The outcome does not depend on the socket map the monitor held: the
  same call on a monitor with any other socket map returns the same error and, on success,
  the same new map. (A refresh that panics ends the program; it returns no monitor.)
\<close>

theorem RefreshProcesses_replaces_or_keeps:
  assumes "RefreshProcesses h w pm = Inr out"
  shows "(fst out = None \<longrightarrow>
      (\<exists>pids st res fds. listPids w = Inr pids
         \<and> getAllProcsInodes w (nlConn pm) pids = Inr st
         \<and> getOpenSockets h w (snd st) (fst st) = Inr res \<and> snd (fst res) = None
         \<and> sendAll w (reqs w) = Inr fds
         \<and> socketMap (snd out) = fst (fst res)
         \<and> socketMap (snd out) = map_of (rev (enumerated h w (fst st) fds))))
    \<and> (fst out \<noteq> None \<longrightarrow> socketMap (snd out) = socketMap pm)
    \<and> RefreshProcesses h w (pm\<lparr>socketMap := other\<rparr>)
        = Inr (fst out,
               (snd out)\<lparr>socketMap := (if fst out = None then socketMap (snd out) else other)\<rparr>)"
proof -
  from RefreshProcesses_cases [OF assms] show ?thesis
  proof (elim disjE exE conjE)
    fix err
    assume "listPids w = Inl err" and "out = (Some err, pm)"
    then show ?thesis
      by (simp add: RefreshProcesses_def)
  next
    fix pids st res
    assume pids: "listPids w = Inr pids"
      and st: "getAllProcsInodes w (nlConn pm) pids = Inr st"
      and res: "getOpenSockets h w (snd st) (fst st) = Inr res"
      and out: "out = (snd (fst res),
                   if snd (fst res) = None
                   then pm\<lparr>socketMap := fst (fst res), nlConn := snd res\<rparr>
                   else pm\<lparr>nlConn := snd res\<rparr>)"
    show ?thesis
    proof (cases "snd (fst res)")
      case None
      with getOpenSockets_result [OF res] obtain fds where
        fds: "sendAll w (reqs w) = Inr fds"
        "fst (fst res) = map_of (rev (enumerated h w (fst st) fds))"
        by blast
      from None out have o: "fst out = None" "socketMap (snd out) = fst (fst res)"
        by simp_all
      from pids st res None fds o have success: "\<exists>pids st res fds. listPids w = Inr pids
         \<and> getAllProcsInodes w (nlConn pm) pids = Inr st
         \<and> getOpenSockets h w (snd st) (fst st) = Inr res \<and> snd (fst res) = None
         \<and> sendAll w (reqs w) = Inr fds
         \<and> socketMap (snd out) = fst (fst res)
         \<and> socketMap (snd out) = map_of (rev (enumerated h w (fst st) fds))"
        by (intro exI [of _ pids] exI [of _ st] exI [of _ res] exI [of _ fds]) simp
      from pids st res None out have same: "RefreshProcesses h w (pm\<lparr>socketMap := other\<rparr>)
        = Inr (fst out,
               (snd out)\<lparr>socketMap := (if fst out = None then socketMap (snd out) else other)\<rparr>)"
        by (simp add: RefreshProcesses_def)
      show ?thesis
      proof (intro conjI impI)
        show "\<exists>pids st res fds. listPids w = Inr pids
         \<and> getAllProcsInodes w (nlConn pm) pids = Inr st
         \<and> getOpenSockets h w (snd st) (fst st) = Inr res \<and> snd (fst res) = None
         \<and> sendAll w (reqs w) = Inr fds
         \<and> socketMap (snd out) = fst (fst res)
         \<and> socketMap (snd out) = map_of (rev (enumerated h w (fst st) fds))"
          by (rule success)
        show "socketMap (snd out) = socketMap pm" if "fst out \<noteq> None"
          using that o by simp
        show "RefreshProcesses h w (pm\<lparr>socketMap := other\<rparr>)
          = Inr (fst out,
               (snd out)\<lparr>socketMap := (if fst out = None then socketMap (snd out) else other)\<rparr>)"
          by (rule same)
      qed
    next
      case (Some err)
      with pids st res out show ?thesis
        by (simp add: RefreshProcesses_def)
    qed
  qed
qed

theorem RefreshProcesses_replaces_or_keeps_witness:
  "(\<exists>pm'. RefreshProcesses scenarioHost scenarioOS staleMonitor = Inr (None, pm')
      \<and> socketMap pm' \<lparr>LocalIP = ''0.0.0.0'', LocalPort = 8080, LocalProtocol = ProtoTCP\<rparr>
          = Some \<lparr>Pid = 7, Name = ''nginx''\<rparr>
      \<and> socketMap pm' \<lparr>LocalIP = ''10.0.0.2'', LocalPort = 50000, LocalProtocol = ProtoTCP\<rparr>
          = None
      \<and> (\<exists>fds st. socketMap pm' = map_of (rev (enumerated scenarioHost scenarioOS st fds))))
   \<and> socketMap staleMonitor \<lparr>LocalIP = ''10.0.0.2'', LocalPort = 50000, LocalProtocol = ProtoTCP\<rparr>
       = Some \<lparr>Pid = 42, Name = ''curl''\<rparr>
   \<and> (\<exists>pm'. RefreshProcesses scenarioHost timeoutOS staleMonitor = Inr (Some EAGAIN, pm')
        \<and> socketMap pm' = socketMap staleMonitor)
   \<and> (\<exists>pm'. RefreshProcesses scenarioHost failingOS staleMonitor = Inr (Some (Errno 13), pm')
        \<and> socketMap pm' = socketMap staleMonitor)"
proof -
  from scenario_refresh obtain pm1 where
    ok: "RefreshProcesses scenarioHost scenarioOS staleMonitor = Inr (None, pm1)"
    and new: "socketMap pm1 \<lparr>LocalIP = ''0.0.0.0'', LocalPort = 8080, LocalProtocol = ProtoTCP\<rparr>
          = Some \<lparr>Pid = 7, Name = ''nginx''\<rparr>"
    and gone: "socketMap pm1 \<lparr>LocalIP = ''10.0.0.2'', LocalPort = 50000, LocalProtocol = ProtoTCP\<rparr>
          = None"
    by blast
  from RefreshProcesses_replaces_or_keeps [OF ok, of Map.empty]
  have "\<exists>pids st res fds. listPids scenarioOS = Inr pids
         \<and> getAllProcsInodes scenarioOS (nlConn staleMonitor) pids = Inr st
         \<and> getOpenSockets scenarioHost scenarioOS (snd st) (fst st) = Inr res
         \<and> snd (fst res) = None
         \<and> sendAll scenarioOS (reqs scenarioOS) = Inr fds
         \<and> socketMap pm1 = fst (fst res)
         \<and> socketMap pm1 = map_of (rev (enumerated scenarioHost scenarioOS (fst st) fds))"
    by (simp only: fst_conv snd_conv simp_thms)
  then have built:
    "\<exists>fds st. socketMap pm1 = map_of (rev (enumerated scenarioHost scenarioOS st fds))"
    by (elim exE conjE) (intro exI, assumption)
  have old: "socketMap staleMonitor
      \<lparr>LocalIP = ''10.0.0.2'', LocalPort = 50000, LocalProtocol = ProtoTCP\<rparr>
       = Some \<lparr>Pid = 42, Name = ''curl''\<rparr>"
    by (simp add: staleMonitor_def)
  from timeout_refresh obtain pm2 where
    late: "RefreshProcesses scenarioHost timeoutOS staleMonitor = Inr (Some EAGAIN, pm2)"
    by blast
  from RefreshProcesses_replaces_or_keeps [OF late]
  have kept: "socketMap pm2 = socketMap staleMonitor"
    by simp
  have failing: "RefreshProcesses scenarioHost failingOS staleMonitor
      = Inr (Some (Errno 13), staleMonitor)"
    by (rule failing_refresh)
  from RefreshProcesses_replaces_or_keeps [OF failing]
  have kept': "socketMap staleMonitor = socketMap staleMonitor"
    by simp
  from ok new gone built old late kept failing show ?thesis
    by blast
qed

lemma map_of_rev_last:
  "k \<notin> fst ` set post \<Longrightarrow> map_of (rev (pre @ (k, v) # post)) k = Some v"
proof -
  assume "k \<notin> fst ` set post"
  then have "map_of (rev post) k = None"
    by (simp add: map_of_eq_None_iff)
  then show ?thesis
    by (simp add: map_of_append map_add_def)
qed

lemma entriesOf_keys:
  "\<forall>msg\<in>set msgs. Data msg \<noteq> None \<Longrightarrow>
   fst ` set (entriesOf h proto inodeMap msgs)
     = (\<lambda>msg. recordSocket h proto (the (Data msg))) ` set msgs"
proof -
  assume d: "\<forall>msg\<in>set msgs. Data msg \<noteq> None"
  then have "List.map_filter Data msgs = map (\<lambda>msg. the (Data msg)) msgs"
    by (induction msgs) (auto simp add: map_filter_simps)
  then show ?thesis
    by (simp add: entriesOf_def recordEntry_def image_image)
qed

lemma entriesOf_split:
  "Data msg = Some m \<Longrightarrow>
   entriesOf h proto inodeMap (pre @ msg # post)
     = entriesOf h proto inodeMap pre @ recordEntry h proto inodeMap m
       # entriesOf h proto inodeMap post"
  by (simp add: entriesOf_def map_filter_def)

lemma enumerated_keys:
  "fst ` set (enumerated h w inodeMap fds)
     = (\<Union>fd\<in>set fds. fst ` set (entriesOf h (snd fd) inodeMap
                                     (streamRecords (recvStream w (fst fd)))))"
  by (auto simp add: enumerated_def)

text \<open>
  Claim C10. Whatever \<^verbatim>\<open>sockdiagRecv\<close> returns, with or without an error, the returned map
  has an entry for the socket of every record it handled; the entry of a socket is the
  one asked for by the last handled record of that socket, and a record whose inode the
  inode map does not hold asks for the zero \<^verbatim>\<open>ProcessInfo\<close> (pid 0, empty name). The map
  a successful \<^verbatim>\<open>GetOpenSockets\<close> returns is made of the entries of all its streams, so it
  has an entry for every record handled, unresolved ones included.
\<close>

theorem unresolved_records_are_kept:
  "(sockdiagRecv h w nl skfd proto inodeMap = Inr res \<longrightarrow>
      fst (fst res) = map_of (rev (entriesOf h proto inodeMap (streamRecords (recvStream w skfd))))
    \<and> (\<forall>msg\<in>set (streamRecords (recvStream w skfd)).
          \<exists>m. Data msg = Some m \<and> recordSocket h proto m \<in> dom (fst (fst res)))
    \<and> (\<forall>pre msg post m.
          streamRecords (recvStream w skfd) = pre @ msg # post \<and> Data msg = Some m
          \<and> (\<forall>later\<in>set post. \<forall>m'. Data later = Some m' \<longrightarrow>
                recordSocket h proto m' \<noteq> recordSocket h proto m) \<longrightarrow>
          fst (fst res) (recordSocket h proto m) = Some (inodeLookup inodeMap (IDiagInode m))))
   \<and> (inodeMap inode = None \<longrightarrow> inodeLookup inodeMap inode = \<lparr>Pid = 0, Name = ''''\<rparr>)
   \<and> (GetOpenSockets h w nl = Inr res' \<and> snd (fst res') = None \<longrightarrow>
        (\<exists>fds im. sendAll w (reqs w) = Inr fds
           \<and> fst (fst res') = map_of (rev (enumerated h w im fds))
           \<and> (\<forall>fd\<in>set fds. \<forall>msg\<in>set (streamRecords (recvStream w (fst fd))).
                 \<exists>m. Data msg = Some m \<and> recordSocket h (snd fd) m \<in> dom (fst (fst res')))))"
proof -
  have stream: "fst (fst res)
        = map_of (rev (entriesOf h proto inodeMap (streamRecords (recvStream w skfd))))
    \<and> (\<forall>msg\<in>set (streamRecords (recvStream w skfd)).
          \<exists>m. Data msg = Some m \<and> recordSocket h proto m \<in> dom (fst (fst res)))
    \<and> (\<forall>pre msg post m.
          streamRecords (recvStream w skfd) = pre @ msg # post \<and> Data msg = Some m
          \<and> (\<forall>later\<in>set post. \<forall>m'. Data later = Some m' \<longrightarrow>
                recordSocket h proto m' \<noteq> recordSocket h proto m) \<longrightarrow>
          fst (fst res) (recordSocket h proto m) = Some (inodeLookup inodeMap (IDiagInode m)))"
    if ret: "sockdiagRecv h w nl skfd proto inodeMap = Inr res"
  proof -
    let ?recs = "streamRecords (recvStream w skfd)"
    from sockdiagRecv_result [OF ret] have
      m: "fst (fst res) = map_of (rev (entriesOf h proto inodeMap ?recs))"
      and d: "\<forall>msg\<in>set ?recs. Data msg \<noteq> None"
      by simp_all
    have keys: "\<exists>m. Data msg = Some m \<and> recordSocket h proto m \<in> dom (fst (fst res))"
      if "msg \<in> set ?recs" for msg
    proof -
      from that d obtain m0 where m0: "Data msg = Some m0"
        by auto
      from that m0 have "recordSocket h proto m0 \<in> fst ` set (entriesOf h proto inodeMap ?recs)"
        by (simp only: entriesOf_keys [OF d]) force
      then have "recordSocket h proto m0 \<in> dom (fst (fst res))"
        by (simp add: m dom_map_of_conv_image_fst)
      with m0 show ?thesis
        by blast
    qed
    have last: "fst (fst res) (recordSocket h proto m0)
        = Some (inodeLookup inodeMap (IDiagInode m0))"
      if split: "?recs = pre @ msg # post" and m0: "Data msg = Some m0"
        and later: "\<forall>later\<in>set post. \<forall>m'. Data later = Some m' \<longrightarrow>
                recordSocket h proto m' \<noteq> recordSocket h proto m0"
      for pre msg post m0
    proof -
      from d split have dpost: "\<forall>msg\<in>set post. Data msg \<noteq> None"
        by simp
      have "recordSocket h proto m0 \<notin> fst ` set (entriesOf h proto inodeMap post)"
        using later dpost by (simp only: entriesOf_keys [OF dpost]) force
      then have "map_of (rev (entriesOf h proto inodeMap pre
            @ (recordSocket h proto m0, inodeLookup inodeMap (IDiagInode m0))
            # entriesOf h proto inodeMap post)) (recordSocket h proto m0)
          = Some (inodeLookup inodeMap (IDiagInode m0))"
        by (rule map_of_rev_last)
      then show ?thesis
        by (simp only: m split entriesOf_split [OF m0] recordEntry_def)
    qed
    from m keys last show ?thesis
      by blast
  qed
  have zero: "inodeMap inode = None \<longrightarrow> inodeLookup inodeMap inode = \<lparr>Pid = 0, Name = ''''\<rparr>"
    by (simp add: inodeLookup_def zeroProcessInfo_def)
  have whole: "\<exists>fds im. sendAll w (reqs w) = Inr fds
           \<and> fst (fst res') = map_of (rev (enumerated h w im fds))
           \<and> (\<forall>fd\<in>set fds. \<forall>msg\<in>set (streamRecords (recvStream w (fst fd))).
                 \<exists>m. Data msg = Some m \<and> recordSocket h (snd fd) m \<in> dom (fst (fst res')))"
    if ret: "GetOpenSockets h w nl = Inr res'" and ok: "snd (fst res') = None"
  proof -
    from ret ok obtain pids st where
      "getOpenSockets h w (snd st) (fst st) = Inr res'"
      by (auto simp add: GetOpenSockets_def split: sum.splits)
    from getOpenSockets_result [OF this] ok obtain fds where
      fds: "sendAll w (reqs w) = Inr fds"
      and m: "fst (fst res') = map_of (rev (enumerated h w (fst st) fds))"
      and d: "\<forall>fd\<in>set fds. \<forall>msg\<in>set (streamRecords (recvStream w (fst fd))). Data msg \<noteq> None"
      by blast
    have "\<exists>m0. Data msg = Some m0 \<and> recordSocket h (snd fd) m0 \<in> dom (fst (fst res'))"
      if fd: "fd \<in> set fds" and msg: "msg \<in> set (streamRecords (recvStream w (fst fd)))"
      for fd msg
    proof -
      from d fd have d': "\<forall>msg\<in>set (streamRecords (recvStream w (fst fd))). Data msg \<noteq> None"
        by blast
      with msg obtain m0 where m0: "Data msg = Some m0"
        by auto
      from msg m0 have "recordSocket h (snd fd) m0
          \<in> fst ` set (entriesOf h (snd fd) (fst st) (streamRecords (recvStream w (fst fd))))"
        by (simp only: entriesOf_keys [OF d']) force
      with fd have "recordSocket h (snd fd) m0 \<in> fst ` set (enumerated h w (fst st) fds)"
        by (simp only: enumerated_keys) blast
      then have "recordSocket h (snd fd) m0 \<in> dom (fst (fst res'))"
        by (simp add: m dom_map_of_conv_image_fst)
      with m0 show ?thesis
        by blast
    qed
    with fds m show ?thesis
      by blast
  qed
  from stream zero whole show ?thesis
    by blast
qed

lemma scenario_stream_records:
  "streamRecords (recvStream scenarioOS 3) = [diagMessage nginxRecord, diagMessage orphanRecord]"
  by (simp add: scenarioOS_def batchRecords_def terminated_def doneMessage_def diagMessage_def
      NLMSG_DONE_def)

lemma scenario_recv:
  "\<exists>res. sockdiagRecv scenarioHost scenarioOS GetSocketFetcher 3 IPPROTO_TCP
      [4242 \<mapsto> \<lparr>Pid = 7, Name = ''nginx''\<rparr>] = Inr res"
  by (simp add: scenario_eval)

theorem unresolved_records_are_kept_witness:
  "(\<exists>res. sockdiagRecv scenarioHost scenarioOS GetSocketFetcher 3 IPPROTO_TCP
        [4242 \<mapsto> \<lparr>Pid = 7, Name = ''nginx''\<rparr>] = Inr res
      \<and> streamRecords (recvStream scenarioOS 3)
          = [diagMessage nginxRecord] @ diagMessage orphanRecord # []
      \<and> Data (diagMessage orphanRecord) = Some orphanRecord
      \<and> [4242 \<mapsto> \<lparr>Pid = 7, Name = ''nginx''\<rparr>] (IDiagInode orphanRecord) = None
      \<and> fst (fst res) \<lparr>LocalIP = ''0.0.0.0'', LocalPort = 22, LocalProtocol = ProtoTCP\<rparr>
          = Some \<lparr>Pid = 0, Name = ''''\<rparr>
      \<and> recordSocket scenarioHost IPPROTO_TCP orphanRecord
          \<noteq> recordSocket scenarioHost IPPROTO_TCP nginxRecord
      \<and> fst (fst res) \<lparr>LocalIP = ''0.0.0.0'', LocalPort = 8080, LocalProtocol = ProtoTCP\<rparr>
          = Some \<lparr>Pid = 7, Name = ''nginx''\<rparr>)
   \<and> (\<exists>res'. GetOpenSockets scenarioHost scenarioOS GetSocketFetcher = Inr res'
      \<and> snd (fst res') = None
      \<and> fst (fst res') \<lparr>LocalIP = ''0.0.0.0'', LocalPort = 22, LocalProtocol = ProtoTCP\<rparr>
          = Some \<lparr>Pid = 0, Name = ''''\<rparr>
      \<and> (\<exists>fds im. sendAll scenarioOS (reqs scenarioOS) = Inr fds
            \<and> fst (fst res') = map_of (rev (enumerated scenarioHost scenarioOS im fds))))"
proof -
  let ?im = "[4242 \<mapsto> \<lparr>Pid = 7, Name = ''nginx''\<rparr>]"
  from scenario_recv obtain res where
    res: "sockdiagRecv scenarioHost scenarioOS GetSocketFetcher 3 IPPROTO_TCP ?im = Inr res"
    by blast
  from scenario_run obtain res' where
    res': "GetOpenSockets scenarioHost scenarioOS GetSocketFetcher = Inr res'"
    and ok: "snd (fst res') = None"
    and orphan': "fst (fst res') \<lparr>LocalIP = ''0.0.0.0'', LocalPort = 22,
        LocalProtocol = ProtoTCP\<rparr> = Some \<lparr>Pid = 0, Name = ''''\<rparr>"
    by blast
  note t = unresolved_records_are_kept [of scenarioHost scenarioOS GetSocketFetcher 3
      IPPROTO_TCP ?im res 999 res']
  have recs: "streamRecords (recvStream scenarioOS 3)
      = [diagMessage nginxRecord] @ diagMessage orphanRecord # []"
    by (simp add: scenario_stream_records)
  have recs': "streamRecords (recvStream scenarioOS 3)
      = [] @ diagMessage nginxRecord # [diagMessage orphanRecord]"
    by (simp add: scenario_stream_records)
  have data: "Data (diagMessage orphanRecord) = Some orphanRecord"
    "Data (diagMessage nginxRecord) = Some nginxRecord"
    by (simp_all add: diagMessage_def)
  have unmatched: "?im (IDiagInode orphanRecord) = None"
    by (simp add: scenario_fields)
  have differ: "recordSocket scenarioHost IPPROTO_TCP orphanRecord
          \<noteq> recordSocket scenarioHost IPPROTO_TCP nginxRecord"
    by (simp add: scenario_sockets)
  from t res have last: "\<forall>pre msg post m.
          streamRecords (recvStream scenarioOS 3) = pre @ msg # post \<and> Data msg = Some m
          \<and> (\<forall>later\<in>set post. \<forall>m'. Data later = Some m' \<longrightarrow>
                recordSocket scenarioHost IPPROTO_TCP m' \<noteq> recordSocket scenarioHost IPPROTO_TCP m)
          \<longrightarrow> fst (fst res) (recordSocket scenarioHost IPPROTO_TCP m)
              = Some (inodeLookup ?im (IDiagInode m))"
    by blast
  from last recs data(1)
  have "fst (fst res) (recordSocket scenarioHost IPPROTO_TCP orphanRecord)
      = Some (inodeLookup ?im (IDiagInode orphanRecord))"
    by (elim allE [of _ "[diagMessage nginxRecord]"] allE [of _ "diagMessage orphanRecord"]
        allE [of _ "[]"] allE [of _ orphanRecord]) simp
  moreover from t unmatched have "inodeLookup ?im 999 = \<lparr>Pid = 0, Name = ''''\<rparr>"
    by (simp add: scenario_fields)
  ultimately have orphan: "fst (fst res)
      \<lparr>LocalIP = ''0.0.0.0'', LocalPort = 22, LocalProtocol = ProtoTCP\<rparr>
        = Some \<lparr>Pid = 0, Name = ''''\<rparr>"
    by (simp add: scenario_sockets scenario_fields)
  from last recs' data(2) differ
  have "fst (fst res) (recordSocket scenarioHost IPPROTO_TCP nginxRecord)
      = Some (inodeLookup ?im (IDiagInode nginxRecord))"
    by (elim allE [of _ "[]"] allE [of _ "diagMessage nginxRecord"]
        allE [of _ "[diagMessage orphanRecord]"] allE [of _ nginxRecord])
      (simp add: diagMessage_def)
  then have nginx: "fst (fst res)
      \<lparr>LocalIP = ''0.0.0.0'', LocalPort = 8080, LocalProtocol = ProtoTCP\<rparr>
        = Some \<lparr>Pid = 7, Name = ''nginx''\<rparr>"
    by (simp add: scenario_sockets scenario_fields inodeLookup_def)
  from t res' ok have whole: "\<exists>fds im. sendAll scenarioOS (reqs scenarioOS) = Inr fds
            \<and> fst (fst res') = map_of (rev (enumerated scenarioHost scenarioOS im fds))"
    by blast
  from res recs data(1) unmatched orphan differ nginx res' ok orphan' whole
  show ?thesis
    by blast
qed

lemmas quiet_eval =
  GetOpenSockets_def listPids_def getAllProcsInodes_def quietOS_def
  workerResults_def validCached_def inodeCacheAt_def
  sweepInodeCache_def cacheTimeout_def getOpenSockets_def reqs_def sockdiagSend_def
  IPPROTO_TCP_def IPPROTO_UDP_def sockdiagRecv_def doneMessage_def
  NLMSG_DONE_def Let_def portCacheAt_def fooConn_def fooCache_def Second_def

lemma quiet_run:
  "GetOpenSockets scenarioHost quietOS fooConn
     = Inr ((Map.empty, None), fooConn\<lparr>inodeCache := Some Map.empty\<rparr>)"
  by (simp add: quiet_eval fun_eq_iff)

lemma quiet_refresh:
  "RefreshProcesses scenarioHost quietOS (staleMonitor\<lparr>nlConn := fooConn\<rparr>)
     = Inr (None, \<lparr>socketMap = Map.empty, nlConn = fooConn\<lparr>inodeCache := Some Map.empty\<rparr>\<rparr>)"
  by (simp add: RefreshProcesses_def staleMonitor_def quiet_eval fun_eq_iff)

lemma foo_string: "ProcessInfo_String \<lparr>Pid = 1234, Name = ''foo''\<rparr> = ''<1234>:foo''"
  by (simp add: ProcessInfo_String_def formatInt_def)

lemma failing_run:
  "GetOpenSockets h failingOS nl = Inr ((Map.empty, Some (Errno 13)), nl)"
  by (simp add: GetOpenSockets_def failingOS_def listPids_def)

text \<open>
  Claim C5 as stated fails for the port cache: an entry written at clock reading 0 for
  port 5555 is still in the port cache after a refresh at 6 s has completed without error,
  while the entry of the same age in the inode cache is gone. And a refresh that cannot
  list the process directory returns its error before the sweep, with both caches as they
  were.
\<close>

theorem portCache_sweep_counterexample:
  "portCacheAt fooConn 5555 = Some fooCache
   \<and> inodeCacheAt fooConn 77 = Some fooCache
   \<and> 5 * Second \<le> timeNow quietOS - timestamp fooCache
   \<and> GetOpenSockets scenarioHost quietOS fooConn
       = Inr ((Map.empty, None), fooConn\<lparr>inodeCache := Some Map.empty\<rparr>)
   \<and> inodeCacheAt (fooConn\<lparr>inodeCache := Some Map.empty\<rparr>) 77 = None
   \<and> portCacheAt (fooConn\<lparr>inodeCache := Some Map.empty\<rparr>) 5555 = Some fooCache
   \<and> 5 * Second \<le> timeNow failingOS - timestamp fooCache
   \<and> GetOpenSockets scenarioHost failingOS fooConn
       = Inr ((Map.empty, Some (Errno 13)), fooConn)"
  by (simp add: quiet_run failing_run)
    (simp add: fooConn_def fooCache_def portCacheAt_def inodeCacheAt_def quietOS_def
      failingOS_def Second_def)

lemma RefreshProcesses_fresh:
  assumes "listPids w = Inr pids" and "RefreshProcesses h w pm = Inr out"
  shows "inodeCacheFresh (timeNow w) (nlConn (snd out))"
proof -
  from RefreshProcesses_cases [OF assms(2)] assms(1) obtain st res where
    st: "getAllProcsInodes w (nlConn pm) pids = Inr st"
    and res: "getOpenSockets h w (snd st) (fst st) = Inr res"
    and out: "out = (snd (fst res),
                   if snd (fst res) = None
                   then pm\<lparr>socketMap := fst (fst res), nlConn := snd res\<rparr>
                   else pm\<lparr>nlConn := snd res\<rparr>)"
    by auto
  from getOpenSockets_result [OF res] have "portCacheExtends h (snd st) (snd res)"
    by simp
  with getAllProcsInodes_result [OF st] have "inodeCacheFresh (timeNow w) (snd res)"
    using portCacheExtends_fresh by blast
  with out show ?thesis
    by simp
qed

text \<open>
  Claim C5, amended. After a refresh that has listed the process ids and has not
  panicked, whether or not it returns an error later, every entry of the inode cache is
  younger than 5 seconds at the clock reading the refresh took: entries whose age had
  reached 5 seconds are absent. The port cache is not swept: a port that had an entry
  before a refresh has one after it. The port-fallback query ignores an entry whose age
  has reached 5 seconds and returns the empty string for it, as for a port without entry;
  for a younger entry it returns the text form of the cached process.
\<close>

theorem cache_expiry:
  "(listPids w = Inr pids \<and> GetOpenSockets h w nl = Inr res \<longrightarrow>
      (\<forall>inode cached. inodeCacheAt (snd res) inode = Some cached \<longrightarrow>
         timeNow w - timestamp cached < 5 * Second))
   \<and> (listPids w = Inr pids \<and> RefreshProcesses h w pm = Inr out \<longrightarrow>
      (\<forall>inode cached. inodeCacheAt (nlConn (snd out)) inode = Some cached \<longrightarrow>
         timeNow w - timestamp cached < 5 * Second))
   \<and> (GetOpenSockets h w nl = Inr res \<and> portCacheAt nl port \<noteq> None \<longrightarrow>
        portCacheAt (snd res) port \<noteq> None)
   \<and> (portCacheAt nl (LocalPort s) = Some cached \<and> 5 * Second \<le> now - timestamp cached \<longrightarrow>
        getProcNameFallback (Some (NetlinkFetcher (Some nl))) now s = '''')
   \<and> (portCacheAt nl (LocalPort s) = Some cached \<and> now - timestamp cached < 5 * Second \<longrightarrow>
        getProcNameFallback (Some (NetlinkFetcher (Some nl))) now s
          = ProcessInfo_String (info cached))
   \<and> (portCacheAt nl (LocalPort s) = None \<longrightarrow>
        getProcNameFallback (Some (NetlinkFetcher (Some nl))) now s = '''')"
proof -
  have inode: "listPids w = Inr pids \<and> GetOpenSockets h w nl = Inr res \<longrightarrow>
      (\<forall>inode cached. inodeCacheAt (snd res) inode = Some cached \<longrightarrow>
         timeNow w - timestamp cached < 5 * Second)"
    using GetOpenSockets_caches [of w pids h nl res]
    by (simp add: inodeCacheFresh_def cacheTimeout_def)
  have monitor: "listPids w = Inr pids \<and> RefreshProcesses h w pm = Inr out \<longrightarrow>
      (\<forall>inode cached. inodeCacheAt (nlConn (snd out)) inode = Some cached \<longrightarrow>
         timeNow w - timestamp cached < 5 * Second)"
    using RefreshProcesses_fresh [of w pids h pm out]
    by (simp add: inodeCacheFresh_def cacheTimeout_def)
  have kept: "GetOpenSockets h w nl = Inr res \<and> portCacheAt nl port \<noteq> None \<longrightarrow>
        portCacheAt (snd res) port \<noteq> None"
    using GetOpenSockets_portCache [of h w nl res] by blast
  have old: "portCacheAt nl (LocalPort s) = Some cached \<and> 5 * Second \<le> now - timestamp cached
      \<longrightarrow> getProcNameFallback (Some (NetlinkFetcher (Some nl))) now s = ''''"
    by (simp add: getProcNameFallback_def)
  have young: "portCacheAt nl (LocalPort s) = Some cached \<and> now - timestamp cached < 5 * Second
      \<longrightarrow> getProcNameFallback (Some (NetlinkFetcher (Some nl))) now s
          = ProcessInfo_String (info cached)"
    by (simp add: getProcNameFallback_def)
  have none: "portCacheAt nl (LocalPort s) = None \<longrightarrow>
        getProcNameFallback (Some (NetlinkFetcher (Some nl))) now s = ''''"
    by (simp add: getProcNameFallback_def)
  from inode monitor kept old young none show ?thesis
    by blast
qed

lemma foo_run:
  "\<exists>res. GetOpenSockets scenarioHost scenarioOS fooConn = Inr res
     \<and> inodeCacheAt (snd res) 4242
         = Some \<lparr>info = \<lparr>Pid = 7, Name = ''nginx''\<rparr>, timestamp = 6 * Second\<rparr>
     \<and> inodeCacheAt (snd res) 77 = None"
  by (simp add: GetOpenSockets_def fooConn_def fooCache_def Second_def scenario_eval)

lemma foo_refresh:
  "\<exists>out. RefreshProcesses scenarioHost scenarioOS (staleMonitor\<lparr>nlConn := fooConn\<rparr>) = Inr out
     \<and> inodeCacheAt (nlConn (snd out)) 4242
         = Some \<lparr>info = \<lparr>Pid = 7, Name = ''nginx''\<rparr>, timestamp = 6 * Second\<rparr>
     \<and> inodeCacheAt (nlConn (snd out)) 77 = None"
  by (simp add: RefreshProcesses_def staleMonitor_def fooConn_def fooCache_def Second_def
      scenario_eval)

theorem cache_expiry_witness:
  "listPids scenarioOS = Inr [7]
   \<and> inodeCacheAt fooConn 77 = Some fooCache
   \<and> portCacheAt fooConn 5555 = Some fooCache
   \<and> 5 * Second \<le> timeNow scenarioOS - timestamp fooCache
   \<and> (\<exists>res. GetOpenSockets scenarioHost scenarioOS fooConn = Inr res
        \<and> inodeCacheAt (snd res) 77 = None
        \<and> inodeCacheAt (snd res) 4242
            = Some \<lparr>info = \<lparr>Pid = 7, Name = ''nginx''\<rparr>, timestamp = 6 * Second\<rparr>
        \<and> timeNow scenarioOS - 6 * Second < 5 * Second
        \<and> portCacheAt (snd res) 5555 \<noteq> None)
   \<and> (\<exists>out. RefreshProcesses scenarioHost scenarioOS (staleMonitor\<lparr>nlConn := fooConn\<rparr>) = Inr out
        \<and> inodeCacheAt (nlConn (snd out)) 77 = None
        \<and> inodeCacheAt (nlConn (snd out)) 4242
            = Some \<lparr>info = \<lparr>Pid = 7, Name = ''nginx''\<rparr>, timestamp = 6 * Second\<rparr>
        \<and> timeNow scenarioOS - 6 * Second < 5 * Second)
   \<and> 4900000000 - timestamp fooCache < 5 * Second
   \<and> getProcNameFallback (Some (NetlinkFetcher (Some fooConn))) 4900000000
        \<lparr>LocalIP = ''10.0.0.2'', LocalPort = 5555, LocalProtocol = ProtoTCP\<rparr> = ''<1234>:foo''
   \<and> 5 * Second \<le> 5100000000 - timestamp fooCache
   \<and> getProcNameFallback (Some (NetlinkFetcher (Some fooConn))) 5100000000
        \<lparr>LocalIP = ''10.0.0.2'', LocalPort = 5555, LocalProtocol = ProtoTCP\<rparr> = ''''
   \<and> portCacheAt fooConn 80 = None
   \<and> getProcNameFallback (Some (NetlinkFetcher (Some fooConn))) 5100000000
        \<lparr>LocalIP = ''10.0.0.2'', LocalPort = 80, LocalProtocol = ProtoTCP\<rparr> = ''''"
proof -
  let ?s = "\<lparr>LocalIP = ''10.0.0.2'', LocalPort = 5555, LocalProtocol = ProtoTCP\<rparr>"
  let ?s80 = "\<lparr>LocalIP = ''10.0.0.2'', LocalPort = 80, LocalProtocol = ProtoTCP\<rparr>"
  let ?pm = "staleMonitor\<lparr>nlConn := fooConn\<rparr>"
  let ?fresh = "\<lparr>info = \<lparr>Pid = 7, Name = ''nginx''\<rparr>, timestamp = 6 * Second\<rparr>"
  have pids: "listPids scenarioOS = Inr [7]"
    by (simp add: listPids_def scenarioOS_def)
  have before: "inodeCacheAt fooConn 77 = Some fooCache" "portCacheAt fooConn 5555 = Some fooCache"
    "portCacheAt fooConn 80 = None"
    by (simp_all add: fooConn_def inodeCacheAt_def portCacheAt_def)
  have ages: "5 * Second \<le> timeNow scenarioOS - timestamp fooCache"
    "4900000000 - timestamp fooCache < 5 * Second"
    "5 * Second \<le> 5100000000 - timestamp fooCache"
    by (simp_all add: scenarioOS_def fooCache_def Second_def)
  from foo_run obtain res where
    res: "GetOpenSockets scenarioHost scenarioOS fooConn = Inr res"
    and kept: "inodeCacheAt (snd res) 4242 = Some ?fresh"
    and swept: "inodeCacheAt (snd res) 77 = None"
    by blast
  from foo_refresh obtain out where
    out: "RefreshProcesses scenarioHost scenarioOS ?pm = Inr out"
    and kept': "inodeCacheAt (nlConn (snd out)) 4242 = Some ?fresh"
    and swept': "inodeCacheAt (nlConn (snd out)) 77 = None"
    by blast
  note t = cache_expiry [of scenarioOS "[7]" scenarioHost fooConn res ?pm out 5555]
  from t pids res have "\<forall>inode cached. inodeCacheAt (snd res) inode = Some cached \<longrightarrow>
         timeNow scenarioOS - timestamp cached < 5 * Second"
    by blast
  with kept have "timeNow scenarioOS - timestamp ?fresh < 5 * Second"
    by blast
  then have young: "timeNow scenarioOS - 6 * Second < 5 * Second"
    by simp
  from t pids out have "\<forall>inode cached. inodeCacheAt (nlConn (snd out)) inode = Some cached \<longrightarrow>
         timeNow scenarioOS - timestamp cached < 5 * Second"
    by blast
  with kept' have "timeNow scenarioOS - timestamp ?fresh < 5 * Second"
    by blast
  then have young': "timeNow scenarioOS - 6 * Second < 5 * Second"
    by simp
  from t res before(2) have port: "portCacheAt (snd res) 5555 \<noteq> None"
    by simp
  from cache_expiry [of scenarioOS "[7]" scenarioHost fooConn res ?pm out 5555 ?s fooCache
      4900000000] before(2) ages(2)
  have q1: "getProcNameFallback (Some (NetlinkFetcher (Some fooConn))) 4900000000 ?s
      = ''<1234>:foo''"
    by (simp add: fooCache_def foo_string)
  from cache_expiry [of scenarioOS "[7]" scenarioHost fooConn res ?pm out 5555 ?s fooCache
      5100000000] before(2) ages(3)
  have q2: "getProcNameFallback (Some (NetlinkFetcher (Some fooConn))) 5100000000 ?s = ''''"
    by simp
  from cache_expiry [of scenarioOS "[7]" scenarioHost fooConn res ?pm out 5555 ?s80 fooCache
      5100000000] before(3)
  have q3: "getProcNameFallback (Some (NetlinkFetcher (Some fooConn))) 5100000000 ?s80 = ''''"
    by simp
  from pids before ages res kept swept young port out kept' swept' q1 q2 q3
  show ?thesis
    by blast
qed

end
